theory Spec2Isabelle
  imports Complex_Main
begin

section \<open>Sales, inventory and warranty backend: a shallow embedding\<close>

text \<open>
  The backend is an Express application over a PostgreSQL store. The embedding follows
  the TypeScript sources: controllers become functions from the request and the database
  to a result and the database afterwards, a thrown error is the left injection of a sum,
  the tables of \<^verbatim>\<open>database/init.ts\<close> are lists of row records, and the JavaScript
  \<^verbatim>\<open>Date\<close> operations used by the warranty code follow the ECMAScript
  definitions of the time value.

  Conventions of the model.
  \<^item> A \<^verbatim>\<open>Date\<close> is its time value, milliseconds since the epoch, as an
    unbounded \<^typ>\<open>int\<close>; the clipping of time values beyond \<open>8.64e15\<close> is left
    out, so a statement about a date holds for the program when that date is a valid one.
  \<^item> Local time is UTC plus a constant offset \<open>tza\<close> in milliseconds, a parameter of
    every function that reads calendar fields; daylight-saving transitions are not modelled.
  \<^item> A clock reading (\<^verbatim>\<open>new Date()\<close>, \<^verbatim>\<open>Date.now()\<close>), the result of
    \<^verbatim>\<open>generateUUID()\<close> and the random letters of the OCR stub are parameters.
  \<^item> A \<^verbatim>\<open>DATE\<close> column holds a day number (days since the epoch); a
    \<^verbatim>\<open>DECIMAL(10, 2)\<close> column holds an amount in hundredths.
\<close>

subsection \<open>ECMAScript time values\<close>

definition msPerDay :: int where
  "msPerDay = 86400000"

definition Day :: "int \<Rightarrow> int" where
  "Day t = t div msPerDay"

definition TimeWithinDay :: "int \<Rightarrow> int" where
  "TimeWithinDay t = t mod msPerDay"

definition DaysInYear :: "int \<Rightarrow> int" where
  "DaysInYear y =
     (if y mod 4 \<noteq> 0 then 365
      else if y mod 100 \<noteq> 0 then 366
      else if y mod 400 \<noteq> 0 then 365
      else 366)"

definition DayFromYear :: "int \<Rightarrow> int" where
  "DayFromYear y =
     365 * (y - 1970) + (y - 1969) div 4 - (y - 1901) div 100 + (y - 1601) div 400"

text \<open>
  ECMAScript defines the year of a time value as the largest \<open>y\<close> whose first day is not
  after it. The executable form estimates the year from the mean length of a Gregorian year
  and corrects the estimate by at most one; \<open>YearFromDay_bounds\<close> and
  \<open>YearFromDay_unique\<close> below show that it is that largest year.
\<close>

definition YearFromDay :: "int \<Rightarrow> int" where
  "YearFromDay d =
     (let y0 = 1970 + (400 * d) div 146097 in
      if d < DayFromYear y0 then y0 - 1
      else if DayFromYear (y0 + 1) \<le> d then y0 + 1
      else y0)"

definition YearFromTime :: "int \<Rightarrow> int" where
  "YearFromTime t = YearFromDay (Day t)"

definition LeapOfYear :: "int \<Rightarrow> int" where
  "LeapOfYear y = (if DaysInYear y = 366 then 1 else 0)"

definition InLeapYear :: "int \<Rightarrow> int" where
  "InLeapYear t = LeapOfYear (YearFromTime t)"

definition DayWithinYear :: "int \<Rightarrow> int" where
  "DayWithinYear t = Day t - DayFromYear (YearFromTime t)"

definition MonthFromTime :: "int \<Rightarrow> int" where
  "MonthFromTime t =
     (let d = DayWithinYear t; l = InLeapYear t in
      if d < 31 then 0
      else if d < 59 + l then 1
      else if d < 90 + l then 2
      else if d < 120 + l then 3
      else if d < 151 + l then 4
      else if d < 181 + l then 5
      else if d < 212 + l then 6
      else if d < 243 + l then 7
      else if d < 273 + l then 8
      else if d < 304 + l then 9
      else if d < 334 + l then 10
      else 11)"

definition DateFromTime :: "int \<Rightarrow> int" where
  "DateFromTime t =
     (let d = DayWithinYear t; l = InLeapYear t; m = MonthFromTime t in
      if m = 0 then d + 1
      else if m = 1 then d - 30
      else if m = 2 then d - 58 - l
      else if m = 3 then d - 89 - l
      else if m = 4 then d - 119 - l
      else if m = 5 then d - 150 - l
      else if m = 6 then d - 180 - l
      else if m = 7 then d - 211 - l
      else if m = 8 then d - 242 - l
      else if m = 9 then d - 272 - l
      else if m = 10 then d - 303 - l
      else d - 333 - l)"

text \<open>
  \<open>DaysBeforeMonth m l\<close> is the day within the year of the first day of month \<open>m\<close>
  (0 is January) in a year with leap flag \<open>l\<close>. \<open>MakeDay\<close> takes the day number of the
  first day of the month that \<open>month\<close> denotes after its overflow into the year, and adds
  \<open>date - 1\<close>: a date beyond the end of that month runs on into the following one.
\<close>

definition DaysBeforeMonth :: "int \<Rightarrow> int \<Rightarrow> int" where
  "DaysBeforeMonth m l =
     (if m = 0 then 0
      else if m = 1 then 31
      else if m = 2 then 59 + l
      else if m = 3 then 90 + l
      else if m = 4 then 120 + l
      else if m = 5 then 151 + l
      else if m = 6 then 181 + l
      else if m = 7 then 212 + l
      else if m = 8 then 243 + l
      else if m = 9 then 273 + l
      else if m = 10 then 304 + l
      else 334 + l)"

definition DaysInMonth :: "int \<Rightarrow> int \<Rightarrow> int" where
  "DaysInMonth y m =
     (if m = 1 then 28 + LeapOfYear y
      else if m = 3 \<or> m = 5 \<or> m = 8 \<or> m = 10 then 30
      else 31)"

definition FirstDayOfMonth :: "int \<Rightarrow> int \<Rightarrow> int" where
  "FirstDayOfMonth y m = DayFromYear y + DaysBeforeMonth m (LeapOfYear y)"

definition MakeDay :: "int \<Rightarrow> int \<Rightarrow> int \<Rightarrow> int" where
  "MakeDay year month date =
     (let ym = year + month div 12; mn = month mod 12
      in FirstDayOfMonth ym mn + date - 1)"

definition MakeDate :: "int \<Rightarrow> int \<Rightarrow> int" where
  "MakeDate day time = day * msPerDay + time"

definition LocalTime :: "int \<Rightarrow> int \<Rightarrow> int" where
  "LocalTime tza t = t + tza"

definition UTC :: "int \<Rightarrow> int \<Rightarrow> int" where
  "UTC tza t = t - tza"

definition getMonth :: "int \<Rightarrow> int \<Rightarrow> int" where
  "getMonth tza d = MonthFromTime (LocalTime tza d)"

definition getDate :: "int \<Rightarrow> int \<Rightarrow> int" where
  "getDate tza d = DateFromTime (LocalTime tza d)"

definition getFullYear :: "int \<Rightarrow> int \<Rightarrow> int" where
  "getFullYear tza d = YearFromTime (LocalTime tza d)"

definition setMonth :: "int \<Rightarrow> int \<Rightarrow> int \<Rightarrow> int" where
  "setMonth tza d month =
     (let t = LocalTime tza d;
          newDate = MakeDate (MakeDay (YearFromTime t) month (DateFromTime t)) (TimeWithinDay t)
      in UTC tza newDate)"

definition setDate :: "int \<Rightarrow> int \<Rightarrow> int \<Rightarrow> int" where
  "setDate tza d date =
     (let t = LocalTime tza d;
          newDate = MakeDate (MakeDay (YearFromTime t) (MonthFromTime t) date) (TimeWithinDay t)
      in UTC tza newDate)"

subsection \<open>Warranty dates (utils/date.ts, services/warrantyService.ts)\<close>

definition calculateWarrantyEnd :: "int \<Rightarrow> int \<Rightarrow> int \<Rightarrow> int" where
  "calculateWarrantyEnd tza startDate months =
     (let endDate = startDate
      in setMonth tza endDate (getMonth tza endDate + months))"

record WarrantyDates =
  warrantyStart :: int
  warrantyEnd :: int

definition calculateWarrantyDates :: "int \<Rightarrow> int \<Rightarrow> int \<Rightarrow> WarrantyDates" where
  "calculateWarrantyDates tza saleDate warrantyPeriodMonths =
     (let warrantyStart = saleDate;
          warrantyEnd = calculateWarrantyEnd tza warrantyStart warrantyPeriodMonths
      in \<lparr>warrantyStart = warrantyStart, warrantyEnd = warrantyEnd\<rparr>)"


subsection \<open>Strings and numbers\<close>

text \<open>
  Strings are byte strings; an accented letter of a message is written as its two UTF-8
  bytes. \<open>showNat\<close> and \<open>showInt\<close> are the decimal rendering that a template literal
  gives an integer.
\<close>

definition a_acute :: string where "a_acute = [CHR 0xC3, CHR 0xA1]"
definition e_acute :: string where "e_acute = [CHR 0xC3, CHR 0xA9]"
definition i_acute :: string where "i_acute = [CHR 0xC3, CHR 0xAD]"
definition o_acute :: string where "o_acute = [CHR 0xC3, CHR 0xB3]"
definition u_acute :: string where "u_acute = [CHR 0xC3, CHR 0xBA]"

definition digitChar :: "nat \<Rightarrow> char" where
  "digitChar n = ''0123456789'' ! n"

function showNat :: "nat \<Rightarrow> string" where
  "showNat n = (if n < 10 then [digitChar n] else showNat (n div 10) @ [digitChar (n mod 10)])"
  by pat_completeness auto
termination
  by (relation "measure id") auto

declare showNat.simps [simp del]

definition showInt :: "int \<Rightarrow> string" where
  "showInt i = (if i < 0 then CHR ''-'' # showNat (nat (- i)) else showNat (nat i))"

definition charCode :: "char \<Rightarrow> nat" where
  "charCode c = of_char c"

definition isDigit :: "char \<Rightarrow> bool" where
  "isDigit c = (48 \<le> charCode c \<and> charCode c \<le> 57)"

definition isAlnum :: "char \<Rightarrow> bool" where
  "isAlnum c = (isDigit c \<or> (65 \<le> charCode c \<and> charCode c \<le> 90) \<or> (97 \<le> charCode c \<and> charCode c \<le> 122))"

definition toUpperChar :: "char \<Rightarrow> char" where
  "toUpperChar c = (if 97 \<le> charCode c \<and> charCode c \<le> 122 then char_of (charCode c - 32) else c)"

text \<open>
  \<^verbatim>\<open>parseInt(s)\<close> with no radix: leading white space and one sign are skipped, a
  \<^verbatim>\<open>0x\<close> prefix selects radix 16, and the longest prefix of digits is read; with no
  digit the result is \<^verbatim>\<open>NaN\<close>, here \<open>None\<close>. White space is the ASCII part of the
  ECMAScript set, and the result is the exact integer (no rounding to a double).
\<close>

definition isWhiteSpace :: "char \<Rightarrow> bool" where
  "isWhiteSpace c = (charCode c = 32 \<or> (9 \<le> charCode c \<and> charCode c \<le> 13))"

definition digitValue :: "nat \<Rightarrow> char \<Rightarrow> nat option" where
  "digitValue radix c =
     (let n = charCode c;
          v = (if 48 \<le> n \<and> n \<le> 57 then Some (n - 48)
               else if 97 \<le> n \<and> n \<le> 122 then Some (n - 87)
               else if 65 \<le> n \<and> n \<le> 90 then Some (n - 55)
               else None)
      in case v of None \<Rightarrow> None | Some k \<Rightarrow> if k < radix then Some k else None)"

fun readDigits :: "nat \<Rightarrow> string \<Rightarrow> nat option \<Rightarrow> nat option" where
  "readDigits radix [] acc = acc"
| "readDigits radix (c # cs) acc =
     (case digitValue radix c of
        None \<Rightarrow> acc
      | Some k \<Rightarrow> readDigits radix cs (Some ((case acc of None \<Rightarrow> 0 | Some a \<Rightarrow> a) * radix + k)))"

definition parseInt :: "string \<Rightarrow> int option" where
  "parseInt inputString =
     (let S = dropWhile isWhiteSpace inputString;
          sign = (if S \<noteq> [] \<and> hd S = CHR ''-'' then - 1 else (1::int));
          S1 = (if S \<noteq> [] \<and> (hd S = CHR ''+'' \<or> hd S = CHR ''-'') then tl S else S);
          hex = (take 2 S1 = ''0x'' \<or> take 2 S1 = ''0X'');
          S2 = (if hex then drop 2 S1 else S1);
          R = (if hex then 16 else 10)
      in case readDigits R S2 None of
           None \<Rightarrow> None
         | Some mathInt \<Rightarrow> Some (sign * int mathInt))"

definition ceilDiv :: "int \<Rightarrow> int \<Rightarrow> int" where
  "ceilDiv a b = - ((- a) div b)"

subsection \<open>Errors (middleware/errorHandler.ts)\<close>

text \<open>
  One constructor for each error class that the modelled code throws, carrying the message;
  \<open>PgError\<close> is an error raised by the database driver, carrying the SQLSTATE code that
  the error handler switches on.
\<close>

datatype error =
    NotFoundError string
  | ValidationError string
  | ConflictError string
  | DatabaseError string
  | Error string
  | PgError string

definition newNotFoundError :: "string \<Rightarrow> error" where
  "newNotFoundError resource = NotFoundError (resource @ '' no encontrado'')"

definition jsFalsy :: "string option \<Rightarrow> bool" where
  "jsFalsy v = (case v of None \<Rightarrow> True | Some s \<Rightarrow> s = [])"

subsection \<open>Tables (database/init.ts)\<close>

text \<open>
  A table is the list of its rows. The timestamps that the database fills in by default
  (\<^verbatim>\<open>created_at\<close>, \<^verbatim>\<open>updated_at\<close>, \<^verbatim>\<open>uploaded_at\<close>) are left out, and identifiers
  are strings of any shape: an identifier that is in a table stands for a well-formed
  \<^verbatim>\<open>UUID\<close>.
\<close>

record User =
  user_id :: string
  user_email :: string
  user_role :: string
  user_is_active :: bool

record Product =
  product_id :: string
  product_name :: string
  product_sku :: string
  product_stock :: int
  product_price :: int
  product_is_active :: bool

record Customer =
  customer_id :: string
  customer_first_name :: string
  customer_last_name :: string
  customer_email :: string
  customer_phone :: "string option"
  customer_address :: "string option"

record Sale =
  sale_id :: string
  sale_product_id :: string
  sale_customer_id :: string
  sale_seller_id :: string
  sale_quantity :: int
  sale_unit_price :: int
  sale_total_price :: int
  sale_date :: int
  sale_warranty_period_months :: int
  sale_warranty_start :: int
  sale_warranty_end :: int
  sale_serial_number :: "string option"

record SaleImage =
  image_id :: string
  image_sale_id :: string
  image_type :: string
  image_url :: string

record database =
  users :: "User list"
  products :: "Product list"
  customers :: "Customer list"
  sales :: "Sale list"
  sale_images :: "SaleImage list"

subsection \<open>Statements against the tables\<close>

text \<open>
  What the declared column types and constraints do to the statements the controllers issue.
  A value outside an \<^verbatim>\<open>INTEGER\<close> or \<^verbatim>\<open>DECIMAL(10, 2)\<close> column is refused with
  SQLSTATE 22003, a \<^verbatim>\<open>CHECK\<close> with 23514, a primary key with 23505 and a foreign key
  with 23503. The table \<^verbatim>\<open>sale_images\<close> is created with no unique constraint on
  \<^verbatim>\<open>(sale_id, image_type)\<close>, so its insert checks none.

  The serial number of a sale is a \<^verbatim>\<open>VARCHAR(255)\<close>. A text value that contains the
  character with code 0 is refused with SQLSTATE 22021. A value longer than the column is
  refused with 22001, unless every character beyond the bound is a space: then the value is
  cut to the bound and stored. The parameters are read before the statement runs, so the
  integers and the text are checked before the decimals and the length. The insert returns
  the row as stored (\<^verbatim>\<open>RETURNING *\<close>). The bounds of \<^verbatim>\<open>sale_images.image_type\<close>, a
  \<^verbatim>\<open>VARCHAR(50)\<close> that only receives the three allowed names, and of
  \<^verbatim>\<open>sale_images.image_url\<close>, a \<^verbatim>\<open>VARCHAR(500)\<close>, are not modelled, nor is the
  bound of the serial number in \<^verbatim>\<open>update_sale_serial\<close>, which receives the serial
  number of the OCR stub, of at most twelve characters in the program: where the model
  of an upload succeeds, the program does when the URL of the stored image has at most 500
  characters, and fails with 22001 otherwise, leaving the serial number as it was.
\<close>

definition fitsInteger :: "int \<Rightarrow> bool" where
  "fitsInteger n = (- 2147483648 \<le> n \<and> n \<le> 2147483647)"

definition fitsDecimal_10_2 :: "int \<Rightarrow> bool" where
  "fitsDecimal_10_2 hundredths = (- 9999999999 \<le> hundredths \<and> hundredths \<le> 9999999999)"

definition validText :: "string \<Rightarrow> bool" where
  "validText s = (CHR 0x00 \<notin> set s)"

definition coerceVarchar :: "nat \<Rightarrow> string \<Rightarrow> string option" where
  "coerceVarchar n s =
     (if length s \<le> n then Some s
      else if list_all (\<lambda>c. c = CHR '' '') (drop n s) then Some (take n s)
      else None)"

definition insert_sale :: "Sale \<Rightarrow> database \<Rightarrow> error + Sale \<times> database" where
  "insert_sale row db =
     (if \<not> (fitsInteger (sale_quantity row) \<and> fitsInteger (sale_warranty_period_months row))
      then Inl (PgError ''22003'')
      else if \<not> (case sale_serial_number row of None \<Rightarrow> True | Some s \<Rightarrow> validText s)
      then Inl (PgError ''22021'')
      else if \<not> (fitsDecimal_10_2 (sale_unit_price row) \<and> fitsDecimal_10_2 (sale_total_price row))
      then Inl (PgError ''22003'')
      else
        case (case sale_serial_number row of
                None \<Rightarrow> Some None
              | Some s \<Rightarrow> map_option Some (coerceVarchar 255 s)) of
          None \<Rightarrow> Inl (PgError ''22001'')
        | Some serial \<Rightarrow>
            if \<not> (0 < sale_quantity row \<and> 0 < sale_unit_price row \<and> 0 < sale_total_price row
                    \<and> 0 < sale_warranty_period_months row)
            then Inl (PgError ''23514'')
            else if sale_id row \<in> set (map sale_id (sales db))
            then Inl (PgError ''23505'')
            else if \<not> (sale_product_id row \<in> set (map product_id (products db))
                        \<and> sale_customer_id row \<in> set (map customer_id (customers db))
                        \<and> sale_seller_id row \<in> set (map user_id (users db)))
            then Inl (PgError ''23503'')
            else (let stored = row\<lparr>sale_serial_number := serial\<rparr>
                  in Inr (stored, db\<lparr>sales := sales db @ [stored]\<rparr>)))"

definition update_product_stock :: "int \<Rightarrow> string \<Rightarrow> database \<Rightarrow> error + database" where
  "update_product_stock quantity pid db =
     (let rows = map (\<lambda>p. if product_id p = pid
                           then p\<lparr>product_stock := product_stock p - quantity\<rparr> else p)
                     (products db)
      in if list_ex (\<lambda>p. product_id p = pid \<and> \<not> fitsInteger (product_stock p)) rows
         then Inl (PgError ''22003'')
         else if list_ex (\<lambda>p. product_id p = pid \<and> product_stock p < 0) rows
         then Inl (PgError ''23514'')
         else Inr (db\<lparr>products := rows\<rparr>))"

definition allowedImageTypes :: "string list" where
  "allowedImageTypes = [''sealed'', ''full_product'', ''serial_number'']"

definition insert_sale_image :: "SaleImage \<Rightarrow> database \<Rightarrow> error + database" where
  "insert_sale_image row db =
     (if image_type row \<notin> set allowedImageTypes
      then Inl (PgError ''23514'')
      else if image_id row \<in> set (map image_id (sale_images db))
      then Inl (PgError ''23505'')
      else if image_sale_id row \<notin> set (map sale_id (sales db))
      then Inl (PgError ''23503'')
      else Inr (db\<lparr>sale_images := sale_images db @ [row]\<rparr>))"

definition update_sale_serial :: "string \<Rightarrow> string \<Rightarrow> database \<Rightarrow> database" where
  "update_sale_serial serial sid db =
     db\<lparr>sales := map (\<lambda>s. if sale_id s = sid then s\<lparr>sale_serial_number := Some serial\<rparr> else s)
                      (sales db)\<rparr>"

text \<open>
  Deleting a customer cascades to the sales that reference it and to the images of those
  sales (\<^verbatim>\<open>ON DELETE CASCADE\<close>).
\<close>

definition delete_customer :: "string \<Rightarrow> database \<Rightarrow> database" where
  "delete_customer cid db =
     (let gone = [s \<leftarrow> sales db. sale_customer_id s = cid]
      in db\<lparr>customers := [c \<leftarrow> customers db. customer_id c \<noteq> cid],
            sales := [s \<leftarrow> sales db. sale_customer_id s \<noteq> cid],
            sale_images := [i \<leftarrow> sale_images db. image_sale_id i \<notin> set (map sale_id gone)]\<rparr>)"

text \<open>
  The constraints of the schema as a predicate on a database: primary keys, the foreign
  keys of \<^verbatim>\<open>sales\<close> and the check on the stock.
\<close>

definition db_constraints :: "database \<Rightarrow> bool" where
  "db_constraints db =
     (distinct (map user_id (users db))
      \<and> distinct (map product_id (products db))
      \<and> distinct (map customer_id (customers db))
      \<and> distinct (map sale_id (sales db))
      \<and> list_all (\<lambda>p. 0 \<le> product_stock p \<and> fitsInteger (product_stock p)) (products db)
      \<and> list_all (\<lambda>s. sale_product_id s \<in> set (map product_id (products db))
                      \<and> sale_customer_id s \<in> set (map customer_id (customers db))
                      \<and> sale_seller_id s \<in> set (map user_id (users db))) (sales db))"

subsection \<open>Creating a sale (controllers/saleController.ts, createSale)\<close>

record CreateSaleData =
  req_product_id :: string
  req_customer_id :: string
  req_quantity :: int
  req_unit_price :: int
  req_warranty_period_months :: int
  req_serial_number :: "string option"

text \<open>
  The statements between \<^verbatim>\<open>BEGIN\<close> and \<^verbatim>\<open>COMMIT\<close>, run on the transaction's view
  of the database. The result carries that view as it is when the body returns or throws:
  an error after the insert leaves the inserted row in it.
\<close>

definition createSale_transaction ::
  "int \<Rightarrow> int \<Rightarrow> string \<Rightarrow> string option \<Rightarrow> CreateSaleData \<Rightarrow> database \<Rightarrow> (error + Sale) \<times> database" where
  "createSale_transaction tza now saleId seller body db =
     (if jsFalsy seller then (Inl (ValidationError ''Vendedor no identificado''), db)
      else
        case [p \<leftarrow> products db. product_id p = req_product_id body \<and> product_is_active p] of
          [] \<Rightarrow> (Inl (newNotFoundError ''Producto no encontrado o inactivo''), db)
        | product # _ \<Rightarrow>
            if product_stock product < req_quantity body
            then (Inl (ValidationError (''Stock insuficiente. Disponible: '' @ showInt (product_stock product)
                                         @ '', Solicitado: '' @ showInt (req_quantity body))), db)
            else if [c \<leftarrow> customers db. customer_id c = req_customer_id body] = []
            then (Inl (newNotFoundError ''Cliente no encontrado''), db)
            else
              (let total_price = req_quantity body * req_unit_price body;
                  sale_date = now;
                  w = calculateWarrantyDates tza sale_date (req_warranty_period_months body);
                  row = \<lparr>sale_id = saleId,
                         sale_product_id = req_product_id body,
                         sale_customer_id = req_customer_id body,
                         sale_seller_id = the seller,
                         sale_quantity = req_quantity body,
                         sale_unit_price = req_unit_price body,
                         sale_total_price = total_price,
                         sale_date = sale_date,
                         sale_warranty_period_months = req_warranty_period_months body,
                         sale_warranty_start = Day (LocalTime tza (warrantyStart w)),
                         sale_warranty_end = Day (LocalTime tza (warrantyEnd w)),
                         sale_serial_number =
                           (if jsFalsy (req_serial_number body) then None else req_serial_number body)\<rparr>
               in (case insert_sale row db of
                     Inl e \<Rightarrow> (Inl e, db)
                   | Inr (sale, db1) \<Rightarrow>
                       (case update_product_stock (req_quantity body) (req_product_id body) db1 of
                          Inl e \<Rightarrow> (Inl e, db1)
                        | Inr db2 \<Rightarrow> (Inr sale, db2)))))"

text \<open>
  \<^verbatim>\<open>createSale\<close>: the transaction commits when the body returns, and the
  \<^verbatim>\<open>catch\<close> block rolls back to the database as it was at \<^verbatim>\<open>BEGIN\<close> and rethrows.
\<close>

definition createSale ::
  "int \<Rightarrow> int \<Rightarrow> string \<Rightarrow> string option \<Rightarrow> CreateSaleData \<Rightarrow> database \<Rightarrow> (error + Sale) \<times> database" where
  "createSale tza now saleId seller body db =
     (case createSale_transaction tza now saleId seller body db of
        (Inl e, _) \<Rightarrow> (Inl e, db)
      | (Inr sale, committed) \<Rightarrow> (Inr sale, committed))"

subsection \<open>Deleting a customer (controllers/customerController.ts, deleteCustomer)\<close>

definition deleteCustomer :: "string \<Rightarrow> database \<Rightarrow> (error + string) \<times> database" where
  "deleteCustomer cid db =
     (case [c \<leftarrow> customers db. customer_id c = cid] of
        [] \<Rightarrow> (Inl (newNotFoundError ''Cliente no encontrado''), db)
      | existingCustomer # _ \<Rightarrow>
          (let salesCount = length [s \<leftarrow> sales db. sale_customer_id s = cid] in
           if salesCount > 0
           then (Inl (ConflictError (''No se puede eliminar el cliente. Tiene '' @ showNat salesCount
                                      @ '' venta(s) asociada(s)'')), db)
           else
             (let customerName = customer_first_name existingCustomer @ '' ''
                                   @ customer_last_name existingCustomer
              in (Inr (''Cliente '' @ customerName @ '' eliminado exitosamente''),
                  delete_customer cid db))))"

subsection \<open>The simulated image store and OCR (services/imageService.ts, services/ocrService.ts)\<close>

record UploadedFile =
  file_originalname :: string
  file_size :: nat

record ImageUploadResult =
  imageUrl :: string
  publicId :: string
  fileSize :: nat
  width :: nat
  height :: nat

definition maxFileSize :: nat where
  "maxFileSize = 5 * 1024 * 1024"

text \<open>
  The transformations in force for an image type: the entry of \<^verbatim>\<open>imageTypeConfigs\<close>
  replaces the default transformations as a whole, so the three known types carry no crop
  mode. Each is (width, height, quality, crop).
\<close>

definition transformationsFor :: "string \<Rightarrow> nat \<times> nat \<times> nat \<times> string option" where
  "transformationsFor imageType =
     (if imageType = ''sealed'' then (800, 600, 90, None)
      else if imageType = ''full_product'' then (1200, 900, 85, None)
      else if imageType = ''serial_number'' then (1920, 1080, 95, None)
      else (1920, 1080, 80, Some ''fit''))"

fun joinWith :: "string \<Rightarrow> string list \<Rightarrow> string" where
  "joinWith sep [] = []"
| "joinWith sep [x] = x"
| "joinWith sep (x # y # ys) = x @ sep @ joinWith sep (y # ys)"

text \<open>\<^verbatim>\<open>fileName.replace(/\.[^/.]+$/, '')\<close>: a final extension is removed.\<close>

definition stripExtension :: "string \<Rightarrow> string" where
  "stripExtension fileName =
     (let r = rev fileName;
          ext = takeWhile (\<lambda>c. c \<noteq> CHR ''.'' \<and> c \<noteq> CHR ''/'') r;
          rest = dropWhile (\<lambda>c. c \<noteq> CHR ''.'' \<and> c \<noteq> CHR ''/'') r
      in if ext \<noteq> [] \<and> rest \<noteq> [] \<and> hd rest = CHR ''.'' then rev (tl rest) else fileName)"

definition uploadImage :: "int \<Rightarrow> UploadedFile \<Rightarrow> string \<Rightarrow> error + ImageUploadResult" where
  "uploadImage timestamp file imageType =
     (if file_size file > maxFileSize
      then Inl (Error (''Archivo demasiado grande. M'' @ a_acute @ ''ximo: 5 MB''))
      else
        (let pid = ''sales-system/'' @ imageType @ ''/'' @ showInt timestamp @ ''-''
                     @ stripExtension (file_originalname file);
             baseUrl = ''https://res.cloudinary.com/sales-system/image/upload'';
             (w, h, quality, crop) = transformationsFor imageType;
             transformations =
               (if 0 < w \<and> 0 < h then [''w_'' @ showNat w @ '',h_'' @ showNat h] else [])
               @ (case crop of None \<Rightarrow> [] | Some c \<Rightarrow> [''c_'' @ c])
               @ (if 0 < quality then [''q_'' @ showNat quality] else []);
             transformationUrl =
               (if transformations \<noteq> [] then joinWith '','' transformations @ ''/'' else [])
         in Inr \<lparr>imageUrl = baseUrl @ ''/'' @ transformationUrl @ pid @ ''.jpg'',
                 publicId = pid,
                 fileSize = file_size file,
                 width = w,
                 height = h\<rparr>))"

record SerialExtractionResponse =
  extractedSerial :: string
  ocrImageUrl :: string
  confidence :: int

text \<open>
  The OCR stub: three characters of the cleaned file name, the last six digits of the clock
  and three random letters. \<open>randomLetters\<close> is the result of
  \<^verbatim>\<open>generateRandomLetters(3)\<close> and \<open>conf\<close> the rounded random confidence in hundredths.
\<close>

definition extractSerialFromImage ::
  "int \<Rightarrow> string \<Rightarrow> int \<Rightarrow> UploadedFile \<Rightarrow> SerialExtractionResponse" where
  "extractSerialFromImage now randomLetters conf file =
     (let fileName = file_originalname file;
          timestamp = showInt now;
          fileHash = map toUpperChar (filter isAlnum fileName);
          simulatedSerial = take 3 fileHash @ drop (length timestamp - 6) timestamp @ randomLetters
      in \<lparr>extractedSerial = simulatedSerial,
          ocrImageUrl = ''https://cloudinary.com/sales-system/images/'' @ timestamp @ ''-'' @ fileName,
          confidence = conf\<rparr>)"

subsection \<open>Attaching images (controllers/saleController.ts, uploadSaleImages)\<close>

text \<open>
  Each file is handled by its own asynchronous callback, and the callbacks are joined by
  \<^verbatim>\<open>Promise.all\<close>. A callback that throws on the declared type does so before its first
  \<^verbatim>\<open>await\<close>; one that fails in the upload does so after the upload's timer; an insert is
  issued after that. None of the callbacks is cancelled by the failure of another, so every
  file that passes its own checks has its row inserted. \<open>stamp i\<close> and \<open>uuid i\<close> are the
  clock reading and the generated identifier of the callback of file \<open>i\<close>.
\<close>

datatype upload_outcome =
    TypeRejected error
  | UploadRejected error
  | InsertRejected error
  | Inserted SaleImage

definition uploadOne ::
  "string \<Rightarrow> int \<Rightarrow> string \<Rightarrow> UploadedFile \<Rightarrow> string \<Rightarrow> database \<Rightarrow> upload_outcome \<times> database" where
  "uploadOne saleId timestamp imageId file imageType db =
     (if imageType \<notin> set [''sealed'', ''full_product'', ''serial_number'']
      then (TypeRejected (ValidationError (''Tipo de imagen inv'' @ a_acute @ ''lido: '' @ imageType)), db)
      else
        case uploadImage timestamp file imageType of
          Inl e \<Rightarrow> (UploadRejected e, db)
        | Inr uploadResult \<Rightarrow>
            (let row = \<lparr>image_id = imageId, image_sale_id = saleId, image_type = imageType,
                        image_url = imageUrl uploadResult\<rparr>
             in case insert_sale_image row db of
                  Inl e \<Rightarrow> (InsertRejected e, db)
                | Inr db' \<Rightarrow> (Inserted row, db')))"

fun uploadEach ::
  "string \<Rightarrow> (nat \<Rightarrow> int) \<Rightarrow> (nat \<Rightarrow> string) \<Rightarrow> nat \<Rightarrow> (UploadedFile \<times> string) list \<Rightarrow> database
     \<Rightarrow> upload_outcome list \<times> database" where
  "uploadEach saleId stamp uuid index [] db = ([], db)"
| "uploadEach saleId stamp uuid index ((file, imageType) # rest) db =
     (let (outcome, db1) = uploadOne saleId (stamp index) (uuid index) file imageType db;
          (outcomes, db2) = uploadEach saleId stamp uuid (Suc index) rest db1
      in (outcome # outcomes, db2))"

text \<open>
  \<^verbatim>\<open>Promise.all\<close> rejects with the rejection that settles first: a type rejection before
  an upload rejection before an insert rejection, and by index among rejections of one kind.
\<close>

definition promiseAll :: "upload_outcome list \<Rightarrow> error + SaleImage list" where
  "promiseAll outcomes =
     (case [e. TypeRejected e \<leftarrow> outcomes] of
        e # _ \<Rightarrow> Inl e
      | [] \<Rightarrow>
          (case [e. UploadRejected e \<leftarrow> outcomes] of
             e # _ \<Rightarrow> Inl e
           | [] \<Rightarrow>
               (case [e. InsertRejected e \<leftarrow> outcomes] of
                  e # _ \<Rightarrow> Inl e
                | [] \<Rightarrow> Inr [row. Inserted row \<leftarrow> outcomes])))"

definition uploadSaleImages ::
  "string \<Rightarrow> UploadedFile list option \<Rightarrow> string list option \<Rightarrow> (nat \<Rightarrow> int) \<Rightarrow> (nat \<Rightarrow> string)
     \<Rightarrow> database \<Rightarrow> (error + SaleImage list) \<times> database" where
  "uploadSaleImages saleId files image_types stamp uuid db =
     (case files of
        None \<Rightarrow> (Inl (ValidationError (''No se proporcionaron im'' @ a_acute @ ''genes'')), db)
      | Some fs \<Rightarrow>
          if length fs = 0
          then (Inl (ValidationError (''No se proporcionaron im'' @ a_acute @ ''genes'')), db)
          else
            (case image_types of
               None \<Rightarrow> (Inl (ValidationError ''Tipos de imagen requeridos como array''), db)
             | Some tys \<Rightarrow>
                 if length fs \<noteq> length tys
                 then (Inl (ValidationError (''N'' @ u_acute @ ''mero de im'' @ a_acute
                              @ ''genes debe coincidir con tipos de imagen'')), db)
                 else if [s \<leftarrow> sales db. sale_id s = saleId] = []
                 then (Inl (newNotFoundError ''Venta no encontrada''), db)
                 else
                   (let (outcomes, db') = uploadEach saleId stamp uuid 0 (zip fs tys) db
                    in (promiseAll outcomes, db'))))"

subsection \<open>Serial extraction (controllers/saleController.ts, extractSerial)\<close>

definition extractSerial ::
  "string \<Rightarrow> UploadedFile option \<Rightarrow> int \<Rightarrow> string \<Rightarrow> int \<Rightarrow> int \<Rightarrow> string \<Rightarrow> database
     \<Rightarrow> (error + SerialExtractionResponse) \<times> database" where
  "extractSerial saleId file ocrNow randomLetters conf uploadNow imageId db =
     (case file of
        None \<Rightarrow> (Inl (ValidationError ''Imagen requerida''), db)
      | Some f \<Rightarrow>
          (case [s \<leftarrow> sales db. sale_id s = saleId] of
             [] \<Rightarrow> (Inl (newNotFoundError ''Venta no encontrada''), db)
           | saleRow # _ \<Rightarrow>
               (let extractionResult = extractSerialFromImage ocrNow randomLetters conf f
                in case uploadImage uploadNow f ''serial_number'' of
                     Inl e \<Rightarrow> (Inl e, db)
                   | Inr uploadResult \<Rightarrow>
                       (case insert_sale_image
                               \<lparr>image_id = imageId, image_sale_id = saleId,
                                image_type = ''serial_number'', image_url = imageUrl uploadResult\<rparr> db of
                          Inl e \<Rightarrow> (Inl e, db)
                        | Inr db1 \<Rightarrow>
                            (let db2 = (if jsFalsy (sale_serial_number saleRow)
                                        then update_sale_serial (extractedSerial extractionResult) saleId db1
                                        else db1)
                             in (Inr extractionResult, db2))))))"

text \<open>The serial number that the row of a sale holds, if the sale exists.\<close>

definition serialOf :: "database \<Rightarrow> string \<Rightarrow> string option option" where
  "serialOf db sid = map_option sale_serial_number (find (\<lambda>s. sale_id s = sid) (sales db))"

subsection \<open>Warranty queries (services/warrantyService.ts, utils/date.ts)\<close>

text \<open>
  \<open>today\<close> is the database's \<^verbatim>\<open>CURRENT_DATE\<close> as a day number and \<open>now\<close> the
  application's clock. The driver hands a \<^verbatim>\<open>DATE\<close> to the application as the
  \<^verbatim>\<open>Date\<close> of local midnight of that day.
\<close>

definition dateColumnToDate :: "int \<Rightarrow> int \<Rightarrow> int" where
  "dateColumnToDate tza dayNumber = UTC tza (MakeDate dayNumber 0)"

definition isWarrantyExpiringSoon :: "int \<Rightarrow> int \<Rightarrow> int option \<Rightarrow> bool" where
  "isWarrantyExpiringSoon now warrantyEndDate daysThreshold =
     (let threshold = (case daysThreshold of None \<Rightarrow> 30 | Some n \<Rightarrow> n);
          diffTime = warrantyEndDate - now;
          diffDays = ceilDiv diffTime (1000 * 60 * 60 * 24)
      in diffDays \<le> threshold \<and> diffDays > 0)"

definition getDaysUntilWarrantyExpiry :: "int \<Rightarrow> int \<Rightarrow> int" where
  "getDaysUntilWarrantyExpiry now warrantyEndDate =
     (let diffTime = warrantyEndDate - now
      in ceilDiv diffTime (1000 * 60 * 60 * 24))"

record WarrantyStatus =
  isActive :: bool
  isExpiringSoon :: bool
  daysUntilExpiry :: int
  statusWarrantyEnd :: int

text \<open>
  \<open>now1\<close> is the clock read by \<^verbatim>\<open>getDaysUntilWarrantyExpiry\<close> and \<open>now2\<close> the one
  read afterwards by \<^verbatim>\<open>isWarrantyExpiringSoon\<close>. Whatever is thrown inside the
  \<^verbatim>\<open>try\<close> block, the missing sale included, is replaced by one generic error.
\<close>

definition checkWarrantyStatus ::
  "int \<Rightarrow> int \<Rightarrow> int \<Rightarrow> string \<Rightarrow> database \<Rightarrow> error + WarrantyStatus" where
  "checkWarrantyStatus tza now1 now2 saleId db =
     (case [s \<leftarrow> sales db. sale_id s = saleId] of
        [] \<Rightarrow> Inl (Error (''Error al verificar estado de garant'' @ i_acute @ ''a''))
      | row # _ \<Rightarrow>
          (let warrantyEndDate = dateColumnToDate tza (sale_warranty_end row);
               days = getDaysUntilWarrantyExpiry now1 warrantyEndDate;
               active = days > 0;
               expiringSoon = isWarrantyExpiringSoon now2 warrantyEndDate None
           in Inr \<lparr>isActive = active, isExpiringSoon = expiringSoon,
                   daysUntilExpiry = days, statusWarrantyEnd = warrantyEndDate\<rparr>))"

record WarrantyStatistics =
  totalActiveWarranties :: nat
  expiringSoonCount :: nat
  expiredCount :: nat
  averageWarrantyPeriod :: rat

text \<open>
  The aggregate query of \<^verbatim>\<open>getWarrantyStatistics\<close>: each
  \<^verbatim>\<open>COUNT(CASE WHEN c THEN 1 END)\<close> counts the rows that satisfy \<open>c\<close>,
  \<^verbatim>\<open>BETWEEN\<close> includes both of its bounds, and the average of no rows is null, read as 0.
\<close>

definition getWarrantyStatistics :: "int \<Rightarrow> database \<Rightarrow> WarrantyStatistics" where
  "getWarrantyStatistics today db =
     (let rows = sales db
      in \<lparr>totalActiveWarranties = length [s \<leftarrow> rows. sale_warranty_end s > today],
          expiringSoonCount =
            length [s \<leftarrow> rows. today \<le> sale_warranty_end s \<and> sale_warranty_end s \<le> today + 30],
          expiredCount = length [s \<leftarrow> rows. sale_warranty_end s < today],
          averageWarrantyPeriod =
            (if rows = [] then 0
             else of_int (sum_list (map sale_warranty_period_months rows)) / of_nat (length rows))\<rparr>)"

record ExpiringWarranty =
  ew_sale_id :: string
  ew_customer_name :: string
  ew_customer_email :: string
  ew_product_name :: string
  ew_warranty_end :: int
  ew_days_until_expiry :: int

text \<open>
  \<^verbatim>\<open>getExpiringWarranties\<close>. The upper bound of the query is the date part of
  \<^verbatim>\<open>thresholdDate.toISOString()\<close>, the UTC day of the threshold. The two clock readings
  of the function are one instant \<open>now\<close>. The rows are the sales joined with their customer
  and product, filtered by the \<^verbatim>\<open>WHERE\<close> clause, in ascending order of the warranty
  end. The model is for the thresholds whose date has a year from 1 to 9999: for a date
  that the \<^verbatim>\<open>Date\<close> cannot hold, or whose ISO string the database does not read as a
  date, the code throws its generic error instead.
\<close>

definition expiringRows :: "int \<Rightarrow> int \<Rightarrow> database \<Rightarrow> (Sale \<times> Customer \<times> Product) list" where
  "expiringRows today upper db =
     sort_key (\<lambda>(s, c, p). sale_warranty_end s)
       [(s, c, p). s \<leftarrow> sales db,
                   c \<leftarrow> customers db, sale_customer_id s = customer_id c,
                   p \<leftarrow> products db, sale_product_id s = product_id p,
                   (today \<le> sale_warranty_end s \<and> sale_warranty_end s \<le> upper)
                     \<and> sale_warranty_end s \<ge> today]"

definition getExpiringWarranties ::
  "int \<Rightarrow> int \<Rightarrow> int \<Rightarrow> int option \<Rightarrow> database \<Rightarrow> ExpiringWarranty list" where
  "getExpiringWarranties tza now today daysThresholdArg db =
     (let daysThreshold = (case daysThresholdArg of None \<Rightarrow> 30 | Some n \<Rightarrow> n);
          currentDate = now;
          thresholdDate = setDate tza now (getDate tza currentDate + daysThreshold);
          upper = Day thresholdDate
      in map (\<lambda>(s, c, p).
                \<lparr>ew_sale_id = sale_id s,
                 ew_customer_name = customer_first_name c @ '' '' @ customer_last_name c,
                 ew_customer_email = customer_email c,
                 ew_product_name = product_name p,
                 ew_warranty_end = dateColumnToDate tza (sale_warranty_end s),
                 ew_days_until_expiry = sale_warranty_end s - today\<rparr>)
             (expiringRows today upper db))"

subsection \<open>The expiring-warranties endpoint (controllers/statsController.ts)\<close>

record ExpiringResponse =
  resp_warranties :: "ExpiringWarranty list"
  resp_count :: nat
  resp_days_threshold :: int

text \<open>
  \<^verbatim>\<open>parseInt(req.query.days as string) || 30\<close>: an absent parameter is
  \<^verbatim>\<open>undefined\<close>, which \<^verbatim>\<open>parseInt\<close> reads as the string of that name; \<^verbatim>\<open>NaN\<close> and
  zero are falsy.
\<close>

definition parseDays :: "string option \<Rightarrow> int" where
  "parseDays q =
     (case parseInt (case q of None \<Rightarrow> ''undefined'' | Some s \<Rightarrow> s) of
        None \<Rightarrow> 30
      | Some n \<Rightarrow> if n = 0 then 30 else n)"

definition getExpiringWarrantiesController ::
  "int \<Rightarrow> int \<Rightarrow> int \<Rightarrow> string option \<Rightarrow> database \<Rightarrow> ExpiringResponse" where
  "getExpiringWarrantiesController tza now today q db =
     (let days = parseDays q;
          expiringWarranties = getExpiringWarranties tza now today (Some days) db
      in \<lparr>resp_warranties = expiringWarranties,
          resp_count = length expiringWarranties,
          resp_days_threshold = days\<rparr>)"

subsection \<open>An example database\<close>

text \<open>
  One seller, two products, two customers and two sales of the first customer: a laptop sold
  on 15 January 2024 with 12 months of warranty, and two mice sold on 31 January 2024 with
  one month, whose warranty ends on 2 March 2024 (day 19784). The sales carry one image.
\<close>

definition demo_db :: database where
  "demo_db =
     \<lparr>users = [\<lparr>user_id = ''u1'', user_email = ''seller@example.com'', user_role = ''seller'',
                 user_is_active = True\<rparr>],
      products = [\<lparr>product_id = ''p1'', product_name = ''Laptop'', product_sku = ''LAP-001'',
                    product_stock = 10, product_price = 10000, product_is_active = True\<rparr>,
                  \<lparr>product_id = ''p2'', product_name = ''Mouse'', product_sku = ''MOU-001'',
                    product_stock = 2, product_price = 1500, product_is_active = True\<rparr>],
      customers = [\<lparr>customer_id = ''c1'', customer_first_name = ''Ana'', customer_last_name = ''Lopez'',
                     customer_email = ''ana@example.com'', customer_phone = None,
                     customer_address = None\<rparr>,
                   \<lparr>customer_id = ''c2'', customer_first_name = ''Luis'', customer_last_name = ''Perez'',
                     customer_email = ''luis@example.com'', customer_phone = None,
                     customer_address = None\<rparr>],
      sales = [\<lparr>sale_id = ''s1'', sale_product_id = ''p1'', sale_customer_id = ''c1'',
                 sale_seller_id = ''u1'', sale_quantity = 1, sale_unit_price = 10000,
                 sale_total_price = 10000, sale_date = 1705276800000,
                 sale_warranty_period_months = 12, sale_warranty_start = 19737,
                 sale_warranty_end = 20103, sale_serial_number = None\<rparr>,
               \<lparr>sale_id = ''s2'', sale_product_id = ''p2'', sale_customer_id = ''c1'',
                 sale_seller_id = ''u1'', sale_quantity = 2, sale_unit_price = 1500,
                 sale_total_price = 3000, sale_date = 1706659200000,
                 sale_warranty_period_months = 1, sale_warranty_start = 19753,
                 sale_warranty_end = 19784, sale_serial_number = Some ''SN-77''\<rparr>],
      sale_images = [\<lparr>image_id = ''i1'', image_sale_id = ''s1'', image_type = ''sealed'',
                       image_url = ''https://res.cloudinary.com/sales-system/image/upload/x.jpg''\<rparr>]\<rparr>"

text \<open>A request for three laptops at 100.00 each with 12 months of warranty.\<close>

definition demo_request :: CreateSaleData where
  "demo_request =
     \<lparr>req_product_id = ''p1'', req_customer_id = ''c1'', req_quantity = 3, req_unit_price = 10000,
      req_warranty_period_months = 12, req_serial_number = None\<rparr>"

text \<open>Two uploaded files, both below the size limit.\<close>

definition demo_box :: UploadedFile where
  "demo_box = \<lparr>file_originalname = ''box.jpg'', file_size = 150000\<rparr>"

definition demo_photo :: UploadedFile where
  "demo_photo = \<lparr>file_originalname = ''serial photo.png'', file_size = 204800\<rparr>"

subsection \<open>Predicates used in the properties\<close>

text \<open>
  No sale holds the empty string as its serial number: in such a database a serial number
  that is not null is a serial number that is not empty.
\<close>

definition serials_nonempty :: "database \<Rightarrow> bool" where
  "serials_nonempty db = list_all (\<lambda>s. sale_serial_number s \<noteq> Some []) (sales db)"

text \<open>An upload outcome that is a rejection with the conflict error.\<close>

definition isConflict :: "error \<Rightarrow> bool" where
  "isConflict e = (case e of ConflictError m \<Rightarrow> True | _ \<Rightarrow> False)"

definition rejectedWithConflict :: "upload_outcome \<Rightarrow> bool" where
  "rejectedWithConflict outcome =
     (case outcome of
        TypeRejected e \<Rightarrow> isConflict e
      | UploadRejected e \<Rightarrow> isConflict e
      | InsertRejected e \<Rightarrow> isConflict e
      | Inserted row \<Rightarrow> False)"

section \<open>Properties\<close>

subsection \<open>The calendar functions\<close>

lemma div_step:
  assumes "0 < (c::int)"
  shows "(a + 1) div c = (if (a + 1) mod c = 0 then a div c + 1 else a div c)"
proof -
  define q where "q = a div c"
  define r where "r = a mod c"
  have a: "a = c * q + r" by (simp add: q_def r_def)
  have r0: "0 \<le> r" and r1: "r < c" using assms by (simp_all add: r_def)
  show ?thesis
  proof (cases "r + 1 = c")
    case True
    have "a + 1 = c * (q + 1) + 0" using a True by (simp add: algebra_simps)
    then have "(a + 1) div c = q + 1" "(a + 1) mod c = 0"
      using assms int_div_pos_eq[of "a + 1" c "q + 1" 0] int_mod_pos_eq[of "a + 1" c "q + 1" 0] by auto
    then show ?thesis by (simp add: q_def)
  next
    case False
    have e: "a + 1 = c * q + (r + 1)" using a by simp
    have b: "0 \<le> r + 1" "r + 1 < c" using r0 r1 False by auto
    have "(a + 1) div c = q" "(a + 1) mod c = r + 1"
      using int_div_pos_eq[OF e b] int_mod_pos_eq[OF e b] by auto
    then show ?thesis using r0 by (simp add: q_def)
  qed
qed

lemma mod_shift4: "(y - 1968) mod 4 = 0 \<longleftrightarrow> y mod (4::int) = 0" by presburger
lemma mod_shift100: "(y - 1900) mod 100 = 0 \<longleftrightarrow> y mod (100::int) = 0"
proof -
  have "(y - 1900) mod 100 = (y + 100 * (-19)) mod 100" by simp
  also have "\<dots> = y mod 100" by (rule mod_mult_self2)
  finally show ?thesis by simp
qed
lemma mod_shift400: "(y - 1600) mod 400 = 0 \<longleftrightarrow> y mod (400::int) = 0"
proof -
  have "(y - 1600) mod 400 = (y + 400 * (-4)) mod 400" by simp
  also have "\<dots> = y mod 400" by (rule mod_mult_self2)
  finally show ?thesis by simp
qed

lemma mod_400_100: "y mod (400::int) = 0 \<Longrightarrow> y mod 100 = 0"
proof -
  assume "y mod 400 = 0"
  then have "400 dvd y" by (simp add: dvd_eq_mod_eq_0)
  moreover have "(100::int) dvd 400" by simp
  ultimately have "100 dvd y" by (rule dvd_trans[rotated])
  then show ?thesis by simp
qed

lemma mod_100_4: "y mod (100::int) = 0 \<Longrightarrow> y mod 4 = 0"
proof -
  assume "y mod 100 = 0"
  then have "100 dvd y" by (simp add: dvd_eq_mod_eq_0)
  moreover have "(4::int) dvd 100" by simp
  ultimately have "4 dvd y" by (rule dvd_trans[rotated])
  then show ?thesis by simp
qed

lemma DayFromYear_Suc: "DayFromYear (y + 1) = DayFromYear y + DaysInYear y"
proof -
  have a: "(y + 1 - 1969) div 4 = (if y mod 4 = 0 then (y - 1969) div 4 + 1 else (y - 1969) div 4)"
    using div_step[of 4 "y - 1969"] mod_shift4[of y] by (simp add: algebra_simps)
  have b: "(y + 1 - 1901) div 100 = (if y mod 100 = 0 then (y - 1901) div 100 + 1 else (y - 1901) div 100)"
    using div_step[of 100 "y - 1901"] mod_shift100[of y] by (simp add: algebra_simps)
  have c: "(y + 1 - 1601) div 400 = (if y mod 400 = 0 then (y - 1601) div 400 + 1 else (y - 1601) div 400)"
    using div_step[of 400 "y - 1601"] mod_shift400[of y] by (simp add: algebra_simps)
  show ?thesis
    unfolding DayFromYear_def DaysInYear_def a b c
    using mod_400_100[of y] mod_100_4[of y] by auto
qed

lemma DaysInYear_ge: "365 \<le> DaysInYear y" "DaysInYear y \<le> 366"
  by (simp_all add: DaysInYear_def)

lemma DayFromYear_approx:
  "146097 * y - 287811596 \<le> 400 * DayFromYear y"
  "400 * DayFromYear y \<le> 146097 * y - 287810501"
proof -
  define a where "a = (y - 1969) div 4"
  define b where "b = (y - 1901) div 100"
  define c where "c = (y - 1601) div 400"
  have a: "4 * a \<le> y - 1969" "y - 1969 < 4 * a + 4" unfolding a_def by linarith+
  have b: "100 * b \<le> y - 1901" "y - 1901 < 100 * b + 100" unfolding b_def by linarith+
  have c: "400 * c \<le> y - 1601" "y - 1601 < 400 * c + 400" unfolding c_def by linarith+
  have d: "DayFromYear y = 365 * y - 719050 + a - b + c"
    by (simp add: DayFromYear_def a_def b_def c_def)
  show "146097 * y - 287811596 \<le> 400 * DayFromYear y" using a b c d by linarith
  show "400 * DayFromYear y \<le> 146097 * y - 287810501" using a b c d by linarith
qed

lemma YearFromDay_bounds:
  "DayFromYear (YearFromDay d) \<le> d" "d < DayFromYear (YearFromDay d + 1)"
proof -
  define q where "q = (400 * d) div 146097"
  define y0 where "y0 = 1970 + q"
  have q: "146097 * q \<le> 400 * d" "400 * d < 146097 * q + 146097" unfolding q_def by linarith+
  define z where "z = y0 - 1"
  define w where "w = y0 + 1 + 1"
  have zw: "q = z - 1969" "q = w - 1972" by (simp_all add: y0_def z_def w_def)
  have "DayFromYear z \<le> d"
    using DayFromYear_approx(2)[of z] q zw by linarith
  then have A: "DayFromYear (y0 - 1) \<le> d" by (simp add: z_def)
  have "d < DayFromYear w"
    using DayFromYear_approx(1)[of w] q zw by linarith
  then have B: "d < DayFromYear (y0 + 1 + 1)" by (simp add: w_def)
  have C: "y0 - 1 + 1 = y0" by simp
  have D: "YearFromDay d = (if d < DayFromYear y0 then y0 - 1
     else if DayFromYear (y0 + 1) \<le> d then y0 + 1 else y0)"
    by (simp add: YearFromDay_def Let_def q_def y0_def)
  show "DayFromYear (YearFromDay d) \<le> d"
    using A unfolding D by auto
  show "d < DayFromYear (YearFromDay d + 1)"
    using B C unfolding D by auto
qed

lemma DayFromYear_mono_aux: "DayFromYear y \<le> DayFromYear (y + int n)"
proof (induction n)
  case 0 show ?case by simp
next
  case (Suc n)
  have "DayFromYear (y + int (Suc n)) = DayFromYear (y + int n + 1)" by (simp add: algebra_simps)
  also have "\<dots> = DayFromYear (y + int n) + DaysInYear (y + int n)" by (rule DayFromYear_Suc)
  finally show ?case using Suc DaysInYear_ge(1)[of "y + int n"] by linarith
qed

lemma DayFromYear_mono: "y \<le> y' \<Longrightarrow> DayFromYear y \<le> DayFromYear y'"
  using DayFromYear_mono_aux[of y "nat (y' - y)"] by simp

lemma YearFromDay_unique:
  assumes "DayFromYear y \<le> d" "d < DayFromYear (y + 1)"
  shows "YearFromDay d = y"
proof -
  let ?z = "YearFromDay d"
  have z: "DayFromYear ?z \<le> d" "d < DayFromYear (?z + 1)" by (rule YearFromDay_bounds)+
  have "\<not> ?z + 1 \<le> y" using DayFromYear_mono[of "?z + 1" y] assms z by linarith
  moreover have "\<not> y + 1 \<le> ?z" using DayFromYear_mono[of "y + 1" ?z] assms z by linarith
  ultimately show ?thesis by linarith
qed


lemma Day_decomp: "t = Day t * msPerDay + TimeWithinDay t"
  by (simp add: Day_def TimeWithinDay_def)

lemma TimeWithinDay_range: "0 \<le> TimeWithinDay t" "TimeWithinDay t < msPerDay"
  by (simp_all add: TimeWithinDay_def msPerDay_def)

lemma Day_MakeDate: "0 \<le> tm \<Longrightarrow> tm < msPerDay \<Longrightarrow> Day (MakeDate d tm) = d"
  unfolding Day_def MakeDate_def msPerDay_def
  by (rule int_div_pos_eq[where r = tm]) auto


lemma LeapOfYear_range: "LeapOfYear y = 0 \<or> LeapOfYear y = 1"
  by (simp add: LeapOfYear_def)

lemma DaysInYear_Leap: "DaysInYear y = 365 + LeapOfYear y"
  by (simp add: LeapOfYear_def DaysInYear_def)


lemma MonthFromTime_range: "0 \<le> MonthFromTime t" "MonthFromTime t \<le> 11"
  by (simp_all add: MonthFromTime_def Let_def)

lemma DateFromTime_eq:
  "DateFromTime t = DayWithinYear t - DaysBeforeMonth (MonthFromTime t) (InLeapYear t) + 1"
  by (simp add: DateFromTime_def DaysBeforeMonth_def Let_def)


lemma month_cases:
  "0 \<le> (m::int) \<Longrightarrow> m \<le> 11 \<Longrightarrow>
   m = 0 \<or> m = 1 \<or> m = 2 \<or> m = 3 \<or> m = 4 \<or> m = 5 \<or> m = 6 \<or> m = 7 \<or> m = 8 \<or> m = 9 \<or> m = 10 \<or> m = 11"
  by presburger

lemma Day_fields:
  "Day t = FirstDayOfMonth (YearFromTime t) (MonthFromTime t) + DateFromTime t - 1"
  by (simp add: DateFromTime_eq FirstDayOfMonth_def DayWithinYear_def InLeapYear_def)

lemma DaysBeforeMonth_Suc:
  "0 \<le> m \<Longrightarrow> m < 11 \<Longrightarrow>
   DaysBeforeMonth (m + 1) (LeapOfYear y) = DaysBeforeMonth m (LeapOfYear y) + DaysInMonth y m"
  using month_cases[of m] by (auto simp: DaysBeforeMonth_def DaysInMonth_def)

lemma DaysBeforeMonth_last:
  "DaysBeforeMonth 11 (LeapOfYear y) + DaysInMonth y 11 = DaysInYear y"
  by (simp add: DaysBeforeMonth_def DaysInMonth_def DaysInYear_Leap)

lemma DaysInMonth_range: "28 \<le> DaysInMonth y m" "DaysInMonth y m \<le> 31"
  using LeapOfYear_range[of y] by (auto simp: DaysInMonth_def)

lemma DaysBeforeMonth_mono:
  assumes "0 \<le> m" "m < m'" "m' \<le> 11"
  shows "DaysBeforeMonth m (LeapOfYear y) + DaysInMonth y m \<le> DaysBeforeMonth m' (LeapOfYear y)"
proof -
  have "m' = m + 1 + int (nat (m' - m - 1))" using assms by simp
  moreover have "m + 1 + int k \<le> 11 \<Longrightarrow>
      DaysBeforeMonth m (LeapOfYear y) + DaysInMonth y m \<le> DaysBeforeMonth (m + 1 + int k) (LeapOfYear y)" for k
  proof (induction k)
    case 0
    then show ?case using DaysBeforeMonth_Suc[of m y] assms by simp
  next
    case (Suc k)
    have "DaysBeforeMonth (m + 1 + int (Suc k)) (LeapOfYear y)
           = DaysBeforeMonth ((m + 1 + int k) + 1) (LeapOfYear y)" by (simp add: algebra_simps)
    also have "\<dots> = DaysBeforeMonth (m + 1 + int k) (LeapOfYear y) + DaysInMonth y (m + 1 + int k)"
      using Suc.prems assms by (intro DaysBeforeMonth_Suc) auto
    finally show ?case using Suc DaysInMonth_range(1)[of y "m + 1 + int k"] by linarith
  qed
  ultimately show ?thesis using assms by metis
qed


lemma DaysBeforeMonth_nonneg: "0 \<le> DaysBeforeMonth m (LeapOfYear y)"
  using LeapOfYear_range[of y] by (auto simp: DaysBeforeMonth_def)

lemma FirstDayOfMonth_end_le_year:
  assumes "0 \<le> m" "m \<le> 11"
  shows "FirstDayOfMonth y m + DaysInMonth y m \<le> DayFromYear (y + 1)"
proof (cases "m = 11")
  case True
  then show ?thesis
    using DaysBeforeMonth_last[of y] by (simp add: FirstDayOfMonth_def DayFromYear_Suc)
next
  case False
  then have "DaysBeforeMonth m (LeapOfYear y) + DaysInMonth y m \<le> DaysBeforeMonth 11 (LeapOfYear y)"
    using assms by (intro DaysBeforeMonth_mono) auto
  then show ?thesis
    using DaysBeforeMonth_last[of y] DaysInMonth_range(1)[of y 11]
    by (simp add: FirstDayOfMonth_def DayFromYear_Suc)
qed


lemma fields_of_Day:
  assumes m: "0 \<le> m" "m \<le> 11" and d: "1 \<le> d" "d \<le> DaysInMonth y m"
      and t: "Day t = FirstDayOfMonth y m + d - 1"
  shows "YearFromTime t = y" "MonthFromTime t = m" "DateFromTime t = d"
proof -
  have lo: "DayFromYear y \<le> Day t"
    using DaysBeforeMonth_nonneg[of m y] d t by (simp add: FirstDayOfMonth_def)
  have hi: "Day t < DayFromYear (y + 1)"
    using FirstDayOfMonth_end_le_year[OF m, of y] d t by simp
  show y: "YearFromTime t = y"
    unfolding YearFromTime_def using lo hi by (rule YearFromDay_unique)
  have w: "DayWithinYear t = DaysBeforeMonth m (LeapOfYear y) + d - 1"
    using t by (simp add: DayWithinYear_def y FirstDayOfMonth_def)
  have l: "InLeapYear t = LeapOfYear y" by (simp add: InLeapYear_def y)
  have l01: "LeapOfYear y = 0 \<or> LeapOfYear y = 1" by (rule LeapOfYear_range)
  have mm': "MonthFromTime t = m" if "m = k" "k \<in> {0,1,2,3,4,5,6,7,8,9,10,11}" for k
    using that d l01
    unfolding MonthFromTime_def Let_def w l DaysBeforeMonth_def DaysInMonth_def
    by (elim insertE emptyE disjE) simp_all
  show mm: "MonthFromTime t = m"
    using month_cases[OF m] mm'[of m] by auto
  show "DateFromTime t = d"
    by (simp add: DateFromTime_eq mm w l)
qed

text \<open>The first day of a month, as \<^verbatim>\<open>MakeDay\<close> computes it, has the fields it was made from.\<close>

lemma FirstDayOfMonth_fields:
  assumes "0 \<le> m" "m \<le> 11"
  shows "YearFromTime (MakeDate (FirstDayOfMonth y m) 0) = y"
        "MonthFromTime (MakeDate (FirstDayOfMonth y m) 0) = m"
        "DateFromTime (MakeDate (FirstDayOfMonth y m) 0) = 1"
proof -
  have d: "Day (MakeDate (FirstDayOfMonth y m) 0) = FirstDayOfMonth y m + 1 - 1"
    by (simp add: Day_MakeDate msPerDay_def)
  have r: "(1::int) \<le> 1" "1 \<le> DaysInMonth y m"
    using DaysInMonth_range(1)[of y m] by simp_all
  show "YearFromTime (MakeDate (FirstDayOfMonth y m) 0) = y"
       "MonthFromTime (MakeDate (FirstDayOfMonth y m) 0) = m"
       "DateFromTime (MakeDate (FirstDayOfMonth y m) 0) = 1"
    using fields_of_Day[OF assms r d] by simp_all
qed









subsection \<open>The warranty window\<close>




subsection \<open>Creating a sale\<close>







lemma demo_db_constraints: "db_constraints demo_db"
  by (simp add: db_constraints_def demo_db_def fitsInteger_def)



text \<open>
  The bound on the serial number is needed: a serial number of 256 letters, or one that
  contains the character with code 0, makes the same request fail.
\<close>

lemma createSale_long_serial:
  "createSale 0 1705276800000 ''s3'' (Some ''u1'')
     (demo_request\<lparr>req_serial_number := Some (replicate 256 CHR ''A'')\<rparr>) demo_db
   = (Inl (PgError ''22001''), demo_db)"
  by (simp add: createSale_def createSale_transaction_def demo_db_def demo_request_def jsFalsy_def
        insert_sale_def fitsInteger_def fitsDecimal_10_2_def validText_def coerceVarchar_def Let_def)

lemma createSale_nul_serial:
  "createSale 0 1705276800000 ''s3'' (Some ''u1'')
     (demo_request\<lparr>req_serial_number := Some [CHR ''A'', CHR 0x00]\<rparr>) demo_db
   = (Inl (PgError ''22021''), demo_db)"
  by (simp add: createSale_def createSale_transaction_def demo_db_def demo_request_def jsFalsy_def
        insert_sale_def fitsInteger_def fitsDecimal_10_2_def validText_def coerceVarchar_def Let_def)

text \<open>
  Claim C2. When the seller is identified and the active product read inside the transaction
  has less stock than the requested quantity, \<^verbatim>\<open>createSale\<close> fails with the validation
  error whose message gives the available and the requested quantity, and the database after
  the rollback is the database before the call: no sale row, the stock as it was.
\<close>

theorem createSale_insufficient_stock:
  assumes "\<not> jsFalsy seller"
      and "[p \<leftarrow> products db. product_id p = req_product_id body \<and> product_is_active p] = product # others"
      and "product_stock product < req_quantity body"
  shows "createSale tza now saleId seller body db =
           (Inl (ValidationError (''Stock insuficiente. Disponible: '' @ showInt (product_stock product)
                                   @ '', Solicitado: '' @ showInt (req_quantity body))), db)"
  using assms by (simp add: createSale_def createSale_transaction_def)

text \<open>Stock 2, requested 5: the message names both and the database is unchanged.\<close>

theorem createSale_insufficient_stock_witness:
  "createSale 0 1705276800000 ''s3'' (Some ''u1'') (demo_request\<lparr>req_product_id := ''p2'', req_quantity := 5\<rparr>) demo_db
     = (Inl (ValidationError ''Stock insuficiente. Disponible: 2, Solicitado: 5''), demo_db)"
proof -
  let ?body = "demo_request\<lparr>req_product_id := ''p2'', req_quantity := 5\<rparr>"
  let ?p2 = "\<lparr>product_id = ''p2'', product_name = ''Mouse'', product_sku = ''MOU-001'',
                    product_stock = 2, product_price = 1500, product_is_active = True\<rparr>"
  have s: "\<not> jsFalsy (Some ''u1'')" by (simp add: jsFalsy_def)
  have f: "[p \<leftarrow> products demo_db. product_id p = req_product_id ?body \<and> product_is_active p] = ?p2 # []"
    by (simp add: demo_db_def demo_request_def)
  have l: "product_stock ?p2 < req_quantity ?body" by (simp add: demo_request_def)
  have n: "showInt 2 = ''2''" "showInt 5 = ''5''"
    by (simp_all add: showInt_def showNat.simps digitChar_def)
  show ?thesis
    using createSale_insufficient_stock[OF s f l, of 0 1705276800000 "''s3''"]
    by (simp add: n demo_request_def)
qed

text \<open>What an insert into \<^verbatim>\<open>sales\<close> and an update of the stock do when they succeed.\<close>

lemma insert_sale_stored:
  assumes "insert_sale row db = Inr (stored, db1)"
  shows "db1 = db\<lparr>sales := sales db @ [stored]\<rparr>"
    and "sale_serial_number row = None \<Longrightarrow> sale_serial_number stored = None"
    and "sale_serial_number row \<noteq> Some [] \<Longrightarrow> sale_serial_number stored \<noteq> Some []"
proof -
  show "db1 = db\<lparr>sales := sales db @ [stored]\<rparr>"
    using assms by (auto simp: insert_sale_def Let_def split: if_splits option.splits)
  show "sale_serial_number row = None \<Longrightarrow> sale_serial_number stored = None"
    using assms by (auto simp: insert_sale_def Let_def split: if_splits option.splits)
  show "sale_serial_number stored \<noteq> Some []" if n: "sale_serial_number row \<noteq> Some []"
  proof (cases "sale_serial_number row")
    case None
    then show ?thesis
      using assms by (auto simp: insert_sale_def Let_def split: if_splits option.splits)
  next
    case (Some s)
    then have "s \<noteq> []" using n by simp
    then have "coerceVarchar 255 s \<noteq> Some []"
      by (auto simp: coerceVarchar_def)
    then show ?thesis
      using assms Some by (auto simp: insert_sale_def Let_def split: if_splits option.splits)
  qed
qed

lemma update_product_stock_rows:
  assumes "update_product_stock quantity pid db = Inr db2"
  shows "db2 = db\<lparr>products := map (\<lambda>p. if product_id p = pid
                                            then p\<lparr>product_stock := product_stock p - quantity\<rparr> else p)
                                      (products db)\<rparr>"
  using assms by (auto simp: update_product_stock_def Let_def split: if_splits)

text \<open>The outcomes of the body of the transaction: an error, or the stored row and both changes.\<close>

lemma createSale_transaction_cases:
  assumes "createSale_transaction tza now saleId seller body db = (Inr sale, tx)"
  shows "tx = db\<lparr>sales := sales db @ [sale],
                 products := map (\<lambda>p. if product_id p = req_product_id body
                                       then p\<lparr>product_stock := product_stock p - req_quantity body\<rparr> else p)
                                 (products db)\<rparr>"
    and "sale_serial_number sale \<noteq> Some []"
proof -
  define w where "w = calculateWarrantyDates tza now (req_warranty_period_months body)"
  define row where "row =
     \<lparr>sale_id = saleId, sale_product_id = req_product_id body,
      sale_customer_id = req_customer_id body, sale_seller_id = the seller,
      sale_quantity = req_quantity body, sale_unit_price = req_unit_price body,
      sale_total_price = req_quantity body * req_unit_price body, sale_date = now,
      sale_warranty_period_months = req_warranty_period_months body,
      sale_warranty_start = Day (LocalTime tza (warrantyStart w)),
      sale_warranty_end = Day (LocalTime tza (warrantyEnd w)),
      sale_serial_number = (if jsFalsy (req_serial_number body) then None else req_serial_number body)\<rparr>"
  have n: "sale_serial_number row \<noteq> Some []"
    by (auto simp: row_def jsFalsy_def split: option.splits)
  from assms obtain db1 where
    i: "insert_sale row db = Inr (sale, db1)"
    and u: "update_product_stock (req_quantity body) (req_product_id body) db1 = Inr tx"
    unfolding createSale_transaction_def Let_def w_def[symmetric] row_def[symmetric]
    by (auto split: if_splits list.splits sum.splits prod.splits)
  show "tx = db\<lparr>sales := sales db @ [sale],
                 products := map (\<lambda>p. if product_id p = req_product_id body
                                       then p\<lparr>product_stock := product_stock p - req_quantity body\<rparr> else p)
                                 (products db)\<rparr>"
    using insert_sale_stored(1)[OF i] update_product_stock_rows[OF u] by simp
  show "sale_serial_number sale \<noteq> Some []"
    using insert_sale_stored(3)[OF i n] .
qed

text \<open>
  Whatever the request, \<^verbatim>\<open>createSale\<close> either fails and leaves the database as it was,
  or returns the new row, which is then the last sale, with the stock of the product lowered
  by the quantity and nothing else changed.
\<close>

lemma createSale_all_or_nothing:
  "case createSale tza now saleId seller body db of
     (Inl e, db') \<Rightarrow> db' = db
   | (Inr row, db') \<Rightarrow>
       sales db' = sales db @ [row]
       \<and> products db' = map (\<lambda>p. if product_id p = req_product_id body
                                   then p\<lparr>product_stock := product_stock p - req_quantity body\<rparr> else p)
                             (products db)
       \<and> users db' = users db \<and> customers db' = customers db \<and> sale_images db' = sale_images db"
proof (cases "createSale_transaction tza now saleId seller body db")
  case (Pair r tx)
  show ?thesis
  proof (cases r)
    case (Inl e)
    then show ?thesis using Pair by (simp add: createSale_def)
  next
    case (Inr row)
    have "createSale_transaction tza now saleId seller body db = (Inr row, tx)"
      using Pair Inr by simp
    from createSale_transaction_cases(1)[OF this]
    show ?thesis using Pair Inr by (simp add: createSale_def)
  qed
qed

subsection \<open>Deleting a customer\<close>

lemma filter_customer_empty:
  "([c \<leftarrow> cs. customer_id c = cid] = []) = (cid \<notin> set (map customer_id cs))"
  by (auto simp: filter_empty_conv)

lemma delete_customer_no_sales:
  assumes "[s \<leftarrow> sales db. sale_customer_id s = cid] = []"
  shows "delete_customer cid db = db\<lparr>customers := [c \<leftarrow> customers db. customer_id c \<noteq> cid]\<rparr>"
proof -
  have "\<forall>s \<in> set (sales db). sale_customer_id s \<noteq> cid"
    using assms by (simp add: filter_empty_conv)
  then have "[s \<leftarrow> sales db. sale_customer_id s \<noteq> cid] = sales db"
    by (simp add: filter_id_conv)
  then show ?thesis
    using assms by (simp add: delete_customer_def Let_def)
qed

text \<open>
  Claim C7. \<^verbatim>\<open>deleteCustomer\<close> answers a missing customer with the not-found error and
  leaves the database as it is; a customer with \<open>n \<ge> 1\<close> sales with the conflict error whose
  message carries \<open>n\<close>, again leaving the database as it is; and a customer with no sale by
  deleting exactly that customer's row. An existing customer is gone afterwards if and only
  if it owned no sale.
\<close>

theorem deleteCustomer_only_without_sales:
  "let n = length [s \<leftarrow> sales db. sale_customer_id s = cid];
       r = deleteCustomer cid db
   in (cid \<notin> set (map customer_id (customers db)) \<longrightarrow>
         r = (Inl (NotFoundError ''Cliente no encontrado no encontrado''), db))
    \<and> (cid \<in> set (map customer_id (customers db)) \<and> 1 \<le> n \<longrightarrow>
         r = (Inl (ConflictError (''No se puede eliminar el cliente. Tiene '' @ showNat n
                                   @ '' venta(s) asociada(s)'')), db))
    \<and> (cid \<in> set (map customer_id (customers db)) \<and> n = 0 \<longrightarrow>
         (\<exists>msg. fst r = Inr msg)
         \<and> snd r = db\<lparr>customers := [c \<leftarrow> customers db. customer_id c \<noteq> cid]\<rparr>
         \<and> cid \<notin> set (map customer_id (customers (snd r))))
    \<and> (cid \<in> set (map customer_id (customers db)) \<longrightarrow>
         (cid \<notin> set (map customer_id (customers (snd r)))) = (n = 0))"
proof -
  define n where "n = length [s \<leftarrow> sales db. sale_customer_id s = cid]"
  have missing: "deleteCustomer cid db = (Inl (NotFoundError ''Cliente no encontrado no encontrado''), db)"
    if "cid \<notin> set (map customer_id (customers db))"
  proof -
    have "[c \<leftarrow> customers db. customer_id c = cid] = []"
      using that by (simp add: filter_customer_empty)
    then show ?thesis by (simp add: deleteCustomer_def newNotFoundError_def)
  qed
  have conflict: "deleteCustomer cid db =
      (Inl (ConflictError (''No se puede eliminar el cliente. Tiene '' @ showNat n
                            @ '' venta(s) asociada(s)'')), db)"
    if "cid \<in> set (map customer_id (customers db))" "1 \<le> n"
  proof -
    have "[c \<leftarrow> customers db. customer_id c = cid] \<noteq> []"
      using that(1) by (simp add: filter_customer_empty)
    then obtain c cs where "[c \<leftarrow> customers db. customer_id c = cid] = c # cs"
      by (cases "[c \<leftarrow> customers db. customer_id c = cid]") auto
    moreover have "0 < n" using that(2) by simp
    ultimately show ?thesis by (simp add: deleteCustomer_def Let_def n_def)
  qed
  have deleted: "\<exists>msg. deleteCustomer cid db =
      (Inr msg, db\<lparr>customers := [c \<leftarrow> customers db. customer_id c \<noteq> cid]\<rparr>)"
    if "cid \<in> set (map customer_id (customers db))" "n = 0"
  proof -
    have "[c \<leftarrow> customers db. customer_id c = cid] \<noteq> []"
      using that(1) by (simp add: filter_customer_empty)
    then obtain c cs where "[c \<leftarrow> customers db. customer_id c = cid] = c # cs"
      by (cases "[c \<leftarrow> customers db. customer_id c = cid]") auto
    moreover have "[s \<leftarrow> sales db. sale_customer_id s = cid] = []"
      using that(2) by (simp add: n_def)
    ultimately show ?thesis
      using delete_customer_no_sales[where db = db and cid = cid] by (simp add: deleteCustomer_def Let_def)
  qed
  have gone: "cid \<notin> set (map customer_id [c \<leftarrow> customers db. customer_id c \<noteq> cid])"
    by auto
  show ?thesis
    unfolding Let_def n_def[symmetric]
    using missing conflict deleted gone
    by (cases "n = 0") (auto simp del: set_map)
qed


text \<open>
  In the example database the first customer owns two sales, the second none, and there is
  no customer \<open>c9\<close>.
\<close>

theorem deleteCustomer_only_without_sales_witness:
  "deleteCustomer ''c1'' demo_db =
     (Inl (ConflictError ''No se puede eliminar el cliente. Tiene 2 venta(s) asociada(s)''), demo_db)
   \<and> fst (deleteCustomer ''c2'' demo_db) = Inr ''Cliente Luis Perez eliminado exitosamente''
   \<and> map customer_id (customers (snd (deleteCustomer ''c2'' demo_db))) = [''c1'']
   \<and> sales (snd (deleteCustomer ''c2'' demo_db)) = sales demo_db
   \<and> deleteCustomer ''c9'' demo_db =
     (Inl (NotFoundError ''Cliente no encontrado no encontrado''), demo_db)"
proof -
  have n: "showNat 2 = ''2''" by (simp add: showNat.simps digitChar_def)
  have two: "length [s \<leftarrow> sales demo_db. sale_customer_id s = ''c1''] = 2"
    by (simp add: demo_db_def)
  have zero: "length [s \<leftarrow> sales demo_db. sale_customer_id s = ''c2''] = 0"
    by (simp add: demo_db_def)
  have ids: "map customer_id (customers demo_db) = [''c1'', ''c2'']"
    by (simp add: demo_db_def)
  have msg: "fst (deleteCustomer ''c2'' demo_db) = Inr ''Cliente Luis Perez eliminado exitosamente''"
    by (simp add: deleteCustomer_def demo_db_def Let_def)
  show ?thesis
    using deleteCustomer_only_without_sales[where db = demo_db and cid = "''c1''"]
          deleteCustomer_only_without_sales[where db = demo_db and cid = "''c2''"]
          deleteCustomer_only_without_sales[where db = demo_db and cid = "''c9''"]
    unfolding Let_def two zero ids
    by (simp add: n msg) (simp add: demo_db_def)
qed


subsection \<open>Warranties that end today\<close>

lemma ceilDiv_nonpos: "0 < b \<Longrightarrow> a \<le> 0 \<Longrightarrow> ceilDiv a b \<le> 0"
  by (simp add: ceilDiv_def pos_imp_zdiv_nonneg_iff)

lemma ceilDiv_zero: "0 < b \<Longrightarrow> - b < a \<Longrightarrow> a \<le> 0 \<Longrightarrow> ceilDiv a b = 0"
  by (simp add: ceilDiv_def)

lemma dateColumnToDate_eq: "dateColumnToDate tza w = w * msPerDay - tza"
  by (simp add: dateColumnToDate_def UTC_def MakeDate_def)

lemma Day_bounds: "Day t * msPerDay \<le> t" "t < Day t * msPerDay + msPerDay"
  using Day_decomp[of t] TimeWithinDay_range[of t] by linarith+

lemma ms_per_day: "1000 * 60 * 60 * 24 = msPerDay"
  by (simp add: msPerDay_def)

lemma ends_today_days:
  assumes "Day (LocalTime tza now) = w"
  shows "getDaysUntilWarrantyExpiry now (dateColumnToDate tza w) = 0"
proof -
  have "w * msPerDay \<le> now + tza" "now + tza < w * msPerDay + msPerDay"
    using Day_bounds[of "LocalTime tza now"] assms by (simp_all add: LocalTime_def)
  then have "- msPerDay < w * msPerDay - tza - now" "w * msPerDay - tza - now \<le> 0" by linarith+
  then show ?thesis
    unfolding getDaysUntilWarrantyExpiry_def Let_def ms_per_day dateColumnToDate_eq
    by (intro ceilDiv_zero) (simp_all add: msPerDay_def)
qed

lemma days_zero_not_soon:
  assumes "getDaysUntilWarrantyExpiry now1 e = 0" "now1 \<le> now2"
  shows "\<not> isWarrantyExpiringSoon now2 e thr"
proof -
  have "\<not> 0 < e - now1"
  proof
    assume "0 < e - now1"
    have "- (e - now1) < 0" using \<open>0 < e - now1\<close> by simp
    then have "(- (e - now1)) div 86400000 < 0"
      by (simp add: neg_imp_zdiv_neg_iff)
    then show False
      using assms(1) by (simp add: getDaysUntilWarrantyExpiry_def ceilDiv_def Let_def)
  qed
  then have "e - now2 \<le> 0" using assms(2) by linarith
  then have "ceilDiv (e - now2) 86400000 \<le> 0"
    by (intro ceilDiv_nonpos) simp_all
  then show ?thesis
    by (simp add: isWarrantyExpiringSoon_def Let_def)
qed

text \<open>
  Claim C4, as the code has it. For a sale whose warranty ends on the current local day,
  \<^verbatim>\<open>checkWarrantyStatus\<close> computes zero days until expiry and reports the warranty as
  neither active nor expiring soon; more generally a status with zero days until expiry is
  neither. In \<^verbatim>\<open>getWarrantyStatistics\<close> a sale whose warranty ends on the database's
  current date is counted neither as active nor as expired, but it is counted as expiring
  soon, because \<^verbatim>\<open>BETWEEN CURRENT_DATE AND ...\<close> includes its lower bound.
\<close>

theorem warranty_ending_today:
  "([s \<leftarrow> sales db. sale_id s = saleId] = row # rest
      \<and> Day (LocalTime tza now1) = sale_warranty_end row \<and> now1 \<le> now2 \<longrightarrow>
      checkWarrantyStatus tza now1 now2 saleId db =
        Inr \<lparr>isActive = False, isExpiringSoon = False, daysUntilExpiry = 0,
             statusWarrantyEnd = dateColumnToDate tza (sale_warranty_end row)\<rparr>)
   \<and> (\<forall>st. checkWarrantyStatus tza now1 now2 saleId db = Inr st
          \<and> daysUntilExpiry st = 0 \<and> now1 \<le> now2 \<longrightarrow>
          \<not> isActive st \<and> \<not> isExpiringSoon st)
   \<and> (sale_warranty_end s = today \<longrightarrow>
        totalActiveWarranties (getWarrantyStatistics today (db\<lparr>sales := s # sales db\<rparr>))
          = totalActiveWarranties (getWarrantyStatistics today db)
      \<and> expiredCount (getWarrantyStatistics today (db\<lparr>sales := s # sales db\<rparr>))
          = expiredCount (getWarrantyStatistics today db)
      \<and> expiringSoonCount (getWarrantyStatistics today (db\<lparr>sales := s # sales db\<rparr>))
          = expiringSoonCount (getWarrantyStatistics today db) + 1)"
proof (intro conjI impI allI)
  assume a: "[s \<leftarrow> sales db. sale_id s = saleId] = row # rest
      \<and> Day (LocalTime tza now1) = sale_warranty_end row \<and> now1 \<le> now2"
  then have z: "getDaysUntilWarrantyExpiry now1 (dateColumnToDate tza (sale_warranty_end row)) = 0"
    by (intro ends_today_days) simp
  have "\<not> isWarrantyExpiringSoon now2 (dateColumnToDate tza (sale_warranty_end row)) None"
    using z a by (intro days_zero_not_soon[where ?now1.0 = now1]) simp_all
  then show "checkWarrantyStatus tza now1 now2 saleId db =
        Inr \<lparr>isActive = False, isExpiringSoon = False, daysUntilExpiry = 0,
             statusWarrantyEnd = dateColumnToDate tza (sale_warranty_end row)\<rparr>"
    using a z by (simp add: checkWarrantyStatus_def Let_def)
next
  fix st
  assume a: "checkWarrantyStatus tza now1 now2 saleId db = Inr st
          \<and> daysUntilExpiry st = 0 \<and> now1 \<le> now2"
  then obtain r rs where r: "[s \<leftarrow> sales db. sale_id s = saleId] = r # rs"
    by (cases "[s \<leftarrow> sales db. sale_id s = saleId]") (auto simp: checkWarrantyStatus_def)
  let ?e = "dateColumnToDate tza (sale_warranty_end r)"
  have st: "st = \<lparr>isActive = getDaysUntilWarrantyExpiry now1 ?e > 0,
                  isExpiringSoon = isWarrantyExpiringSoon now2 ?e None,
                  daysUntilExpiry = getDaysUntilWarrantyExpiry now1 ?e,
                  statusWarrantyEnd = ?e\<rparr>"
    using a r by (simp add: checkWarrantyStatus_def Let_def)
  have z: "getDaysUntilWarrantyExpiry now1 ?e = 0" using a st by simp
  have "\<not> isWarrantyExpiringSoon now2 ?e None"
    using z a by (intro days_zero_not_soon[where ?now1.0 = now1]) simp_all
  then show "\<not> isActive st" "\<not> isExpiringSoon st" using st z by simp_all
next
  assume "sale_warranty_end s = today"
  then show "totalActiveWarranties (getWarrantyStatistics today (db\<lparr>sales := s # sales db\<rparr>))
          = totalActiveWarranties (getWarrantyStatistics today db)"
     "expiredCount (getWarrantyStatistics today (db\<lparr>sales := s # sales db\<rparr>))
          = expiredCount (getWarrantyStatistics today db)"
     "expiringSoonCount (getWarrantyStatistics today (db\<lparr>sales := s # sales db\<rparr>))
          = expiringSoonCount (getWarrantyStatistics today db) + 1"
    by (simp_all add: getWarrantyStatistics_def Let_def)
qed

text \<open>
  On 2 March 2024 at 10:00 UTC the second sale of the example database ends today: its
  status is inactive and not expiring soon, and the statistics count it as expiring soon.
\<close>

theorem warranty_ending_today_witness:
  "checkWarrantyStatus 0 1709373600000 1709373600005 ''s2'' demo_db =
     Inr \<lparr>isActive = False, isExpiringSoon = False, daysUntilExpiry = 0,
          statusWarrantyEnd = 1709337600000\<rparr>
   \<and> totalActiveWarranties (getWarrantyStatistics 19784 demo_db) = 1
   \<and> expiredCount (getWarrantyStatistics 19784 demo_db) = 0
   \<and> expiringSoonCount (getWarrantyStatistics 19784 demo_db) = 1
   \<and> totalActiveWarranties (getWarrantyStatistics 19784 (demo_db\<lparr>sales := [hd (sales demo_db)]\<rparr>)) = 1
   \<and> expiringSoonCount (getWarrantyStatistics 19784 (demo_db\<lparr>sales := [hd (sales demo_db)]\<rparr>)) = 0"
proof -
  let ?s1 = "hd (sales demo_db)"
  let ?s2 = "hd (tl (sales demo_db))"
  let ?db1 = "demo_db\<lparr>sales := [?s1]\<rparr>"
  let ?db2 = "demo_db\<lparr>sales := [?s2, ?s1]\<rparr>"
  have f: "[s \<leftarrow> sales demo_db. sale_id s = ''s2''] = ?s2 # []
      \<and> Day (LocalTime 0 1709373600000) = sale_warranty_end ?s2
      \<and> (1709373600000::int) \<le> 1709373600005"
    by (simp add: demo_db_def Day_def LocalTime_def msPerDay_def)
  have e: "sale_warranty_end ?s2 = 19784" by (simp add: demo_db_def)
  have d: "dateColumnToDate 0 19784 = 1709337600000"
    by (simp add: dateColumnToDate_def UTC_def MakeDate_def msPerDay_def)
  have st: "checkWarrantyStatus 0 1709373600000 1709373600005 ''s2'' demo_db =
     Inr \<lparr>isActive = False, isExpiringSoon = False, daysUntilExpiry = 0,
          statusWarrantyEnd = 1709337600000\<rparr>"
    using warranty_ending_today[where db = demo_db and saleId = "''s2''" and row = ?s2 and rest = "[]"
        and tza = 0 and ?now1.0 = 1709373600000 and ?now2.0 = 1709373600005] f
    unfolding e d by blast
  have base: "totalActiveWarranties (getWarrantyStatistics 19784 ?db1) = 1"
    "expiredCount (getWarrantyStatistics 19784 ?db1) = 0"
    "expiringSoonCount (getWarrantyStatistics 19784 ?db1) = 0"
    by (simp_all add: getWarrantyStatistics_def demo_db_def Let_def)
  have step: "totalActiveWarranties (getWarrantyStatistics 19784 ?db2) = 1
      \<and> expiredCount (getWarrantyStatistics 19784 ?db2) = 0
      \<and> expiringSoonCount (getWarrantyStatistics 19784 ?db2) = 1"
    using warranty_ending_today[where db = ?db1 and s = ?s2 and today = 19784] e base
    by simp
  have same: "getWarrantyStatistics 19784 ?db2 = getWarrantyStatistics 19784 demo_db"
    by (simp add: getWarrantyStatistics_def demo_db_def Let_def)
  show ?thesis using st step base unfolding same by simp
qed

text \<open>
  Claim C4 as stated fails for the statistics: on day 19784 the only warranty within the
  30 days is the one that ends on that very day, and the expiring-soon count is 1, not the 0
  that a strict comparison gives.
\<close>

theorem statistics_today_counterexample:
  "map sale_warranty_end (sales demo_db) = [20103, 19784]
   \<and> expiringSoonCount (getWarrantyStatistics 19784 demo_db) = 1
   \<and> expiringSoonCount (getWarrantyStatistics 19784 demo_db)
       \<noteq> length [s \<leftarrow> sales demo_db. 19784 < sale_warranty_end s \<and> sale_warranty_end s \<le> 19784 + 30]"
  by (simp add: getWarrantyStatistics_def demo_db_def Let_def)

subsection \<open>The warranties that expire within a threshold\<close>

lemma Day_add_days: "Day (t + n * msPerDay) = Day t + n"
  by (simp add: Day_def msPerDay_def)

lemma setDate_shift: "setDate tza now (getDate tza now + n) = now + n * msPerDay"
proof -
  let ?t = "LocalTime tza now"
  have m: "0 \<le> MonthFromTime ?t" "MonthFromTime ?t \<le> 11" by (rule MonthFromTime_range)+
  then have dm: "MonthFromTime ?t div 12 = 0" "MonthFromTime ?t mod 12 = MonthFromTime ?t"
    by simp_all
  have "MakeDay (YearFromTime ?t) (MonthFromTime ?t) (DateFromTime ?t + n) = Day ?t + n"
    unfolding MakeDay_def Let_def dm using Day_fields[of ?t] by simp
  then have "MakeDate (MakeDay (YearFromTime ?t) (MonthFromTime ?t) (DateFromTime ?t + n))
               (TimeWithinDay ?t) = ?t + n * msPerDay"
    using Day_decomp[of ?t] by (simp add: MakeDate_def algebra_simps)
  then show ?thesis
    by (simp add: setDate_def getDate_def Let_def UTC_def LocalTime_def)
qed

lemma threshold_day: "Day (setDate tza now (getDate tza now + n)) = Day now + n"
  unfolding setDate_shift by (rule Day_add_days)

lemma concat_map_key:
  assumes "distinct (map f xs)" "x \<in> set xs"
  shows "concat (map (\<lambda>y. if f x = f y then F y else []) xs) = F x"
  using assms
proof (induction xs)
  case Nil
  then show ?case by simp
next
  case (Cons a xs)
  show ?case
  proof (cases "a = x")
    case True
    have "\<forall>y \<in> set xs. f x \<noteq> f y" using Cons.prems(1) True by (auto simp: image_iff)
    then have "concat (map (\<lambda>y. if f x = f y then F y else []) xs) = []"
      by (induction xs) auto
    then show ?thesis using True by simp
  next
    case False
    then have x: "x \<in> set xs" using Cons.prems(2) by simp
    then have "f x \<noteq> f a" using Cons.prems(1) by (auto simp: image_iff)
    then show ?thesis using Cons x by simp
  qed
qed

lemma map_insort_key: "map f (insort_key (\<lambda>a. k (f a)) x ys) = insort_key k (f x) (map f ys)"
  by (induction ys) auto

lemma map_sort_key: "map f (sort_key (\<lambda>a. k (f a)) xs) = sort_key k (map f xs)"
  by (induction xs) (auto simp: map_insort_key)

lemma join_sales:
  assumes c: "db_constraints db" and sub: "set ss \<subseteq> set (sales db)"
  shows "map fst
           [(s, c, p). s \<leftarrow> ss,
                   c \<leftarrow> customers db, sale_customer_id s = customer_id c,
                   p \<leftarrow> products db, sale_product_id s = product_id p,
                   (today \<le> sale_warranty_end s \<and> sale_warranty_end s \<le> upper)
                     \<and> sale_warranty_end s \<ge> today]
         = [s \<leftarrow> ss. today \<le> sale_warranty_end s \<and> sale_warranty_end s \<le> upper]"
  using sub
proof (induction ss)
  case Nil
  then show ?case by simp
next
  case (Cons s ss)
  have dc: "distinct (map customer_id (customers db))"
    and dp: "distinct (map product_id (products db))"
    using c by (simp_all add: db_constraints_def)
  have s: "s \<in> set (sales db)" using Cons.prems by simp
  have fk: "sale_product_id s \<in> set (map product_id (products db))"
           "sale_customer_id s \<in> set (map customer_id (customers db))"
    using c s by (auto simp: db_constraints_def list_all_iff)
  obtain cu where cu: "cu \<in> set (customers db)" "sale_customer_id s = customer_id cu"
    using fk(2) by auto
  obtain pr where pr: "pr \<in> set (products db)" "sale_product_id s = product_id pr"
    using fk(1) by auto
  have inner: "concat (map (\<lambda>p. if sale_product_id s = product_id p then G p else []) (products db)) = G pr"
    for G :: "Product \<Rightarrow> (Sale \<times> Customer \<times> Product) list"
    unfolding pr(2) by (rule concat_map_key[OF dp pr(1)])
  have outer: "concat (map (\<lambda>c. if sale_customer_id s = customer_id c then H c else []) (customers db)) = H cu"
    for H :: "Customer \<Rightarrow> (Sale \<times> Customer \<times> Product) list"
    unfolding cu(2) by (rule concat_map_key[OF dc cu(1)])
  have one: "concat (map (\<lambda>c. if sale_customer_id s = customer_id c
                then concat (map (\<lambda>p. if sale_product_id s = product_id p
                        then if (today \<le> sale_warranty_end s \<and> sale_warranty_end s \<le> upper)
                                 \<and> sale_warranty_end s \<ge> today
                             then [(s, c, p)] else []
                        else []) (products db))
                else []) (customers db))
       = (if today \<le> sale_warranty_end s \<and> sale_warranty_end s \<le> upper then [(s, cu, pr)] else [])"
    unfolding inner outer by simp
  have "set ss \<subseteq> set (sales db)" using Cons.prems by simp
  then show ?case using Cons.IH one by simp
qed

lemma expiringRows_sales:
  assumes "db_constraints db"
  shows "map fst (expiringRows today upper db)
           = sort_key sale_warranty_end
               [s \<leftarrow> sales db. today \<le> sale_warranty_end s \<and> sale_warranty_end s \<le> upper]"
proof -
  have k: "(\<lambda>(s, c, p). sale_warranty_end s) = (\<lambda>a. sale_warranty_end (fst a))"
    by (simp add: case_prod_unfold)
  show ?thesis
    unfolding expiringRows_def k map_sort_key
    using join_sales[OF assms subset_refl, of today upper] by simp
qed

lemma sorted_shift: "sorted (map f xs) \<Longrightarrow> sorted (map (\<lambda>x. f x - (c::int)) xs)"
  by (induction xs) auto

text \<open>
  The rows of the listing, for any date of the database server: the lower bound is that
  date, the upper bound is the UTC date of the clock of the application plus the threshold.
\<close>

lemma getExpiringWarranties_bounds:
  assumes "db_constraints db"
  shows "map ew_sale_id (getExpiringWarranties tza now today (Some n) db)
           = map sale_id (sort_key sale_warranty_end
               [s \<leftarrow> sales db. today \<le> sale_warranty_end s \<and> sale_warranty_end s \<le> Day now + n])"
proof -
  have "map ew_sale_id (getExpiringWarranties tza now today (Some n) db)
          = map sale_id (map fst (expiringRows today (Day now + n) db))"
    by (simp add: getExpiringWarranties_def Let_def threshold_day case_prod_unfold)
  then show ?thesis unfolding expiringRows_sales[OF assms] .
qed

text \<open>
  Let the database satisfy its constraints and let its current date be the UTC date of the
  application's clock, as when both run on UTC. Then \<^verbatim>\<open>getExpiringWarranties\<close> returns
  one entry for each sale whose warranty end lies in \<open>[today, today + daysThreshold]\<close>,
  both bounds included, and no other, in ascending order of the warranty end: the
  identifiers returned are those of the sales in the window sorted by warranty end, and the
  days until expiry are sorted.
\<close>

lemma getExpiringWarranties_same_date:
  assumes c: "db_constraints db" and t: "today = Day now"
  shows "let result = getExpiringWarranties tza now today (Some n) db;
             due = sort_key sale_warranty_end
                     [s \<leftarrow> sales db. today \<le> sale_warranty_end s \<and> sale_warranty_end s \<le> today + n]
         in map ew_sale_id result = map sale_id due
          \<and> map ew_days_until_expiry result = map (\<lambda>s. sale_warranty_end s - today) due
          \<and> sorted (map ew_days_until_expiry result)
          \<and> (\<forall>s \<in> set (sales db).
                (sale_id s \<in> set (map ew_sale_id result))
                  = (today \<le> sale_warranty_end s \<and> sale_warranty_end s \<le> today + n))"
proof -
  define rows where "rows = expiringRows today (today + n) db"
  define due where "due = sort_key sale_warranty_end
                     [s \<leftarrow> sales db. today \<le> sale_warranty_end s \<and> sale_warranty_end s \<le> today + n]"
  define mk where "mk = (\<lambda>(s :: Sale, c :: Customer, p :: Product).
                \<lparr>ew_sale_id = sale_id s,
                 ew_customer_name = customer_first_name c @ '' '' @ customer_last_name c,
                 ew_customer_email = customer_email c,
                 ew_product_name = product_name p,
                 ew_warranty_end = dateColumnToDate tza (sale_warranty_end s),
                 ew_days_until_expiry = sale_warranty_end s - today\<rparr>)"
  have res: "getExpiringWarranties tza now today (Some n) db = map mk rows"
    by (simp add: getExpiringWarranties_def Let_def threshold_day t rows_def mk_def)
  have rows: "map fst rows = due"
    unfolding rows_def due_def by (rule expiringRows_sales[OF c])
  have ids: "map ew_sale_id (map mk rows) = map sale_id (map fst rows)"
    by (simp add: mk_def case_prod_unfold)
  have days: "map ew_days_until_expiry (map mk rows) = map (\<lambda>s. sale_warranty_end s - today) (map fst rows)"
    by (simp add: mk_def case_prod_unfold)
  have srt: "sorted (map (\<lambda>s. sale_warranty_end s - today) due)"
    unfolding due_def by (intro sorted_shift) simp
  have inj: "inj_on sale_id (set (sales db))"
    using c by (simp add: db_constraints_def distinct_map)
  have mem: "(sale_id s \<in> set (map sale_id due))
                  = (today \<le> sale_warranty_end s \<and> sale_warranty_end s \<le> today + n)"
    if s: "s \<in> set (sales db)" for s
  proof -
    have sub: "set due \<subseteq> set (sales db)" by (auto simp: due_def)
    have "(sale_id s \<in> set (map sale_id due)) = (s \<in> set due)"
    proof
      assume "sale_id s \<in> set (map sale_id due)"
      then obtain x where x: "x \<in> set due" "sale_id x = sale_id s" by auto
      then have "x = s" using inj s sub by (auto dest: inj_onD)
      then show "s \<in> set due" using x by simp
    qed simp
    also have "\<dots> = (today \<le> sale_warranty_end s \<and> sale_warranty_end s \<le> today + n)"
      using s by (simp add: due_def)
    finally show ?thesis .
  qed
  show ?thesis
    unfolding Let_def res due_def[symmetric] ids days rows
    using srt mem by simp
qed

text \<open>
  On 2 March 2024 a threshold of 400 days returns the sale that ends today first and the one
  that ends 319 days later second, against their order in the table; a threshold of 30 days
  returns the sale that ends today.
\<close>

lemma getExpiringWarranties_same_date_example:
  "map ew_sale_id (getExpiringWarranties 0 1709373600000 19784 (Some 400) demo_db) = [''s2'', ''s1'']
   \<and> map ew_days_until_expiry (getExpiringWarranties 0 1709373600000 19784 (Some 400) demo_db) = [0, 319]
   \<and> map ew_sale_id (getExpiringWarranties 0 1709373600000 19784 (Some 30) demo_db) = [''s2'']"
proof -
  have d: "19784 = Day 1709373600000" by (simp add: Day_def msPerDay_def)
  have a: "sort_key sale_warranty_end
            [s \<leftarrow> sales demo_db. 19784 \<le> sale_warranty_end s \<and> sale_warranty_end s \<le> 19784 + 400]
           = [hd (tl (sales demo_db)), hd (sales demo_db)]"
    by (simp add: demo_db_def)
  have b: "sort_key sale_warranty_end
            [s \<leftarrow> sales demo_db. 19784 \<le> sale_warranty_end s \<and> sale_warranty_end s \<le> 19784 + 30]
           = [hd (tl (sales demo_db))]"
    by (simp add: demo_db_def)
  show ?thesis
    using getExpiringWarranties_same_date[OF demo_db_constraints d, where tza = 0 and n = 400]
          getExpiringWarranties_same_date[OF demo_db_constraints d, where tza = 0 and n = 30]
    unfolding Let_def a b
    by (simp add: demo_db_def)
qed

text \<open>
  Under the same condition the expiring-soon count of the statistics, whose window is
  computed by the database alone, is the length of the listing at its default threshold of
  30 days.
\<close>

lemma statistics_count_is_listing:
  assumes "db_constraints db" "today = Day now"
  shows "expiringSoonCount (getWarrantyStatistics today db)
           = length (getExpiringWarranties tza now today None db)"
proof -
  have "length (getExpiringWarranties tza now today None db)
          = length (map fst (expiringRows today (today + 30) db))"
    by (simp add: getExpiringWarranties_def Let_def threshold_day assms(2))
  also have "\<dots> = length [s \<leftarrow> sales db. today \<le> sale_warranty_end s \<and> sale_warranty_end s \<le> today + 30]"
    unfolding expiringRows_sales[OF assms(1)] by simp
  finally show ?thesis by (simp add: getWarrantyStatistics_def Let_def)
qed

text \<open>
  Claim C8 at a failing input. The application and the database run in a zone six hours
  behind UTC, and the listing is asked for with a threshold of 30 days at 23:30 on
  31 January 2024, which is day 19753 for the database and 05:30 of day 19754 in UTC. The
  second sale of the example database ends its warranty on 2 March 2024, 31 days after
  today. No sale ends in \<open>[today, today + 30]\<close> and the statistics count none as expiring
  soon, yet the listing returns that sale, with its 31 days until expiry: the upper bound
  sent to the database is the UTC date of the threshold, one day after \<open>today + 30\<close>.
\<close>

theorem getExpiringWarranties_beyond_threshold:
  "Day (LocalTime (- 21600000) 1706765400000) = 19753
   \<and> Day 1706765400000 = 19754
   \<and> [s \<leftarrow> sales demo_db. 19753 \<le> sale_warranty_end s \<and> sale_warranty_end s \<le> 19753 + 30] = []
   \<and> expiringSoonCount (getWarrantyStatistics 19753 demo_db) = 0
   \<and> map (\<lambda>w. (ew_sale_id w, ew_days_until_expiry w))
         (getExpiringWarranties (- 21600000) 1706765400000 19753 (Some 30) demo_db) = [(''s2'', 31)]"
proof -
  have days: "Day (LocalTime (- 21600000) 1706765400000) = 19753" "Day 1706765400000 = 19754"
    by (simp_all add: Day_def LocalTime_def msPerDay_def)
  have none: "[s \<leftarrow> sales demo_db. 19753 \<le> sale_warranty_end s \<and> sale_warranty_end s \<le> 19753 + 30] = []"
    "expiringSoonCount (getWarrantyStatistics 19753 demo_db) = 0"
    by (simp_all add: demo_db_def getWarrantyStatistics_def)
  have listed: "map (\<lambda>w. (ew_sale_id w, ew_days_until_expiry w))
         (getExpiringWarranties (- 21600000) 1706765400000 19753 (Some 30) demo_db) = [(''s2'', 31)]"
    by code_simp
  show ?thesis using days none listed by simp
qed

subsection \<open>The default threshold of the expiring-warranties endpoint\<close>

text \<open>
  Claim C10. When the \<^verbatim>\<open>days\<close> parameter is absent, or \<^verbatim>\<open>parseInt\<close> reads it as
  \<^verbatim>\<open>NaN\<close> or as zero, the controller calls \<^verbatim>\<open>getExpiringWarranties\<close> with 30 and
  echoes 30 as the threshold; and \<^verbatim>\<open>getExpiringWarranties\<close> called without an argument
  behaves as with 30.
\<close>

theorem expiring_endpoint_default_threshold:
  "(q = None \<or> (\<exists>s. q = Some s \<and> (parseInt s = None \<or> parseInt s = Some 0)) \<longrightarrow>
      getExpiringWarrantiesController tza now today q db =
        \<lparr>resp_warranties = getExpiringWarranties tza now today (Some 30) db,
         resp_count = length (getExpiringWarranties tza now today (Some 30) db),
         resp_days_threshold = 30\<rparr>)
   \<and> getExpiringWarranties tza now today None db = getExpiringWarranties tza now today (Some 30) db"
proof -
  have u: "parseInt ''undefined'' = None" by code_simp
  have "parseDays q = 30"
    if "q = None \<or> (\<exists>s. q = Some s \<and> (parseInt s = None \<or> parseInt s = Some 0))"
    using that u by (auto simp: parseDays_def)
  then show ?thesis
    by (simp add: getExpiringWarrantiesController_def getExpiringWarranties_def Let_def)
qed

text \<open>
  An absent parameter, a word, a zero, the empty string and a signed hexadecimal zero all
  give 30; a parameter that starts with a nonzero integer gives that integer.
\<close>

theorem expiring_endpoint_default_threshold_witness:
  "resp_days_threshold (getExpiringWarrantiesController 0 1709373600000 19784 None demo_db) = 30
   \<and> resp_days_threshold (getExpiringWarrantiesController 0 1709373600000 19784 (Some ''abc'') demo_db) = 30
   \<and> resp_days_threshold (getExpiringWarrantiesController 0 1709373600000 19784 (Some ''0'') demo_db) = 30
   \<and> resp_days_threshold (getExpiringWarrantiesController 0 1709373600000 19784 (Some '''') demo_db) = 30
   \<and> resp_warranties (getExpiringWarrantiesController 0 1709373600000 19784 (Some '' -0x0'') demo_db)
       = getExpiringWarranties 0 1709373600000 19784 None demo_db
   \<and> parseDays (Some ''7 days'') = 7
   \<and> parseDays (Some ''-3'') = - 3"
proof -
  have p: "parseInt ''abc'' = None" "parseInt ''0'' = Some 0" "parseInt '''' = None"
    "parseInt '' -0x0'' = Some 0"
    by code_simp+
  have o: "parseDays (Some ''7 days'') = 7" "parseDays (Some ''-3'') = - 3" by code_simp+
  show ?thesis
    using expiring_endpoint_default_threshold[where q = None and tza = 0 and now = 1709373600000
            and today = 19784 and db = demo_db]
          expiring_endpoint_default_threshold[where q = "Some ''abc''" and tza = 0 and now = 1709373600000
            and today = 19784 and db = demo_db]
          expiring_endpoint_default_threshold[where q = "Some ''0''" and tza = 0 and now = 1709373600000
            and today = 19784 and db = demo_db]
          expiring_endpoint_default_threshold[where q = "Some ''''" and tza = 0 and now = 1709373600000
            and today = 19784 and db = demo_db]
          expiring_endpoint_default_threshold[where q = "Some '' -0x0''" and tza = 0 and now = 1709373600000
            and today = 19784 and db = demo_db]
    by (simp add: p o)
qed


subsection \<open>The simulated upload\<close>

lemma showNat_config:
  "showNat 800 = ''800''" "showNat 600 = ''600''" "showNat 90 = ''90''"
  "showNat 1200 = ''1200''" "showNat 900 = ''900''" "showNat 85 = ''85''"
  "showNat 1920 = ''1920''" "showNat 1080 = ''1080''" "showNat 95 = ''95''"
  by (simp_all add: showNat.simps digitChar_def)

lemma uploadImage_sealed:
  assumes "file_size f \<le> maxFileSize"
  shows "uploadImage t f ''sealed'' =
     Inr \<lparr>imageUrl = ''https://res.cloudinary.com/sales-system/image/upload/w_800,h_600,q_90/sales-system/sealed/''
                      @ showInt t @ ''-'' @ stripExtension (file_originalname f) @ ''.jpg'',
          publicId = ''sales-system/sealed/'' @ showInt t @ ''-'' @ stripExtension (file_originalname f),
          fileSize = file_size f, width = 800, height = 600\<rparr>"
  using assms by (simp add: uploadImage_def transformationsFor_def Let_def showNat_config)

lemma uploadImage_full_product:
  assumes "file_size f \<le> maxFileSize"
  shows "uploadImage t f ''full_product'' =
     Inr \<lparr>imageUrl = ''https://res.cloudinary.com/sales-system/image/upload/w_1200,h_900,q_85/sales-system/full_product/''
                      @ showInt t @ ''-'' @ stripExtension (file_originalname f) @ ''.jpg'',
          publicId = ''sales-system/full_product/'' @ showInt t @ ''-'' @ stripExtension (file_originalname f),
          fileSize = file_size f, width = 1200, height = 900\<rparr>"
  using assms by (simp add: uploadImage_def transformationsFor_def Let_def showNat_config)

lemma uploadImage_serial_number:
  assumes "file_size f \<le> maxFileSize"
  shows "uploadImage t f ''serial_number'' =
     Inr \<lparr>imageUrl = ''https://res.cloudinary.com/sales-system/image/upload/w_1920,h_1080,q_95/sales-system/serial_number/''
                      @ showInt t @ ''-'' @ stripExtension (file_originalname f) @ ''.jpg'',
          publicId = ''sales-system/serial_number/'' @ showInt t @ ''-'' @ stripExtension (file_originalname f),
          fileSize = file_size f, width = 1920, height = 1080\<rparr>"
  using assms by (simp add: uploadImage_def transformationsFor_def Let_def showNat_config)


lemma extractSerial_succeeds:
  assumes "saleId \<in> set (map sale_id (sales db))"
      and "file_size f \<le> maxFileSize"
      and "imageId \<notin> set (map image_id (sale_images db))"
  shows "fst (extractSerial saleId (Some f) ocrNow rnd conf uploadNow imageId db)
           = Inr (extractSerialFromImage ocrNow rnd conf f)"
proof -
  have "[s \<leftarrow> sales db. sale_id s = saleId] \<noteq> []"
    using assms(1) by (auto simp: filter_empty_conv)
  then obtain saleRow rest where r: "[s \<leftarrow> sales db. sale_id s = saleId] = saleRow # rest"
    by (cases "[s \<leftarrow> sales db. sale_id s = saleId]") auto
  have ins: "insert_sale_image \<lparr>image_id = imageId, image_sale_id = saleId,
                 image_type = ''serial_number'', image_url = u\<rparr> db
             = Inr (db\<lparr>sale_images := sale_images db @
                      [\<lparr>image_id = imageId, image_sale_id = saleId,
                        image_type = ''serial_number'', image_url = u\<rparr>]\<rparr>)" for u
    using assms(1,3) by (simp add: insert_sale_image_def allowedImageTypes_def)
  show ?thesis
    unfolding extractSerial_def
    by (simp add: r uploadImage_serial_number[OF assms(2)] ins Let_def)
qed

subsection \<open>Serial extraction\<close>

lemma showNat_nonempty: "showNat n \<noteq> []"
  by (subst showNat.simps) simp

lemma showInt_nonempty: "showInt i \<noteq> []"
  by (simp add: showInt_def showNat_nonempty)

lemma extractedSerial_nonempty:
  "extractedSerial (extractSerialFromImage now rnd conf f) \<noteq> []"
proof -
  have "drop (length (showInt now) - 6) (showInt now) \<noteq> []"
    using showInt_nonempty[of now] by (cases "showInt now") auto
  then show ?thesis by (simp add: extractSerialFromImage_def Let_def)
qed

lemma find_first_of_filter:
  "filter P xs = y # ys \<Longrightarrow> find P xs = Some y"
  by (induction xs) (auto split: if_splits)

lemma find_map_same_key:
  assumes "\<And>x. sale_id (g x) = sale_id x"
  shows "find (\<lambda>s. sale_id s = k) (map g xs) = map_option g (find (\<lambda>s. sale_id s = k) xs)"
  by (induction xs) (auto simp: assms)

lemma serialOf_update:
  "serialOf (update_sale_serial x sid db) k =
     (if k = sid then map_option (\<lambda>_. Some x) (serialOf db k) else serialOf db k)"
proof -
  define g where "g = (\<lambda>s::Sale. if sale_id s = sid then s\<lparr>sale_serial_number := Some x\<rparr> else s)"
  have id: "sale_id (g s) = sale_id s" for s by (simp add: g_def)
  have f: "find (\<lambda>s. sale_id s = k) (map g (sales db)) = map_option g (find (\<lambda>s. sale_id s = k) (sales db))"
    by (rule find_map_same_key) (rule id)
  have u: "sales (update_sale_serial x sid db) = map g (sales db)"
    by (simp add: update_sale_serial_def g_def)
  show ?thesis
  proof (cases "find (\<lambda>s. sale_id s = k) (sales db)")
    case None
    then show ?thesis by (auto simp: serialOf_def u f)
  next
    case (Some s)
    then have k: "sale_id s = k" by (auto simp: find_Some_iff)
    have "serialOf (update_sale_serial x sid db) k = Some (sale_serial_number (g s))"
      unfolding serialOf_def u f Some by simp
    moreover have "serialOf db k = Some (sale_serial_number s)"
      unfolding serialOf_def Some by simp
    moreover have "sale_serial_number (g s) = (if k = sid then Some x else sale_serial_number s)"
      using k by (simp add: g_def)
    ultimately show ?thesis by (cases "k = sid") auto
  qed
qed

lemma serialOf_insert_image:
  "insert_sale_image row db = Inr db1 \<Longrightarrow> serialOf db1 k = serialOf db k"
  by (auto simp: insert_sale_image_def serialOf_def split: if_splits)

text \<open>The outcomes of \<^verbatim>\<open>extractSerial\<close>: it fails, or it succeeds and keeps or writes the serial number.\<close>

lemma extractSerial_cases:
  obtains (failed) e where "extractSerial saleId file ocrNow rnd conf uploadNow imageId db = (Inl e, db)"
  | (kept) f saleRow rest db1 where
      "file = Some f" "[s \<leftarrow> sales db. sale_id s = saleId] = saleRow # rest"
      "\<not> jsFalsy (sale_serial_number saleRow)"
      "\<forall>k. serialOf db1 k = serialOf db k" "sales db1 = sales db"
      "extractSerial saleId file ocrNow rnd conf uploadNow imageId db
         = (Inr (extractSerialFromImage ocrNow rnd conf f), db1)"
  | (written) f saleRow rest db1 where
      "file = Some f" "[s \<leftarrow> sales db. sale_id s = saleId] = saleRow # rest"
      "jsFalsy (sale_serial_number saleRow)"
      "\<forall>k. serialOf db1 k = serialOf db k" "sales db1 = sales db"
      "extractSerial saleId file ocrNow rnd conf uploadNow imageId db
         = (Inr (extractSerialFromImage ocrNow rnd conf f),
            update_sale_serial (extractedSerial (extractSerialFromImage ocrNow rnd conf f)) saleId db1)"
proof (cases "file")
  case None
  then show ?thesis using failed by (simp add: extractSerial_def)
next
  case (Some f)
  show ?thesis
  proof (cases "[s \<leftarrow> sales db. sale_id s = saleId]")
    case Nil
    then show ?thesis using failed Some by (simp add: extractSerial_def)
  next
    case (Cons saleRow rest)
    show ?thesis
    proof (cases "uploadImage uploadNow f ''serial_number''")
      case (Inl e)
      then show ?thesis using failed Some Cons by (simp add: extractSerial_def Let_def)
    next
      case (Inr up)
      show ?thesis
      proof (cases "insert_sale_image \<lparr>image_id = imageId, image_sale_id = saleId,
                       image_type = ''serial_number'', image_url = imageUrl up\<rparr> db")
        case (Inl e)
        then show ?thesis using failed Some Cons Inr by (simp add: extractSerial_def Let_def)
      next
        case ins: (Inr db1)
        have same: "\<forall>k. serialOf db1 k = serialOf db k"
          using serialOf_insert_image[OF ins] by simp
        have sales: "sales db1 = sales db"
          using ins by (auto simp: insert_sale_image_def split: if_splits)
        show ?thesis
        proof (cases "jsFalsy (sale_serial_number saleRow)")
          case True
          then show ?thesis
            using written[OF Some Cons True same sales] Some Cons Inr ins
            by (simp add: extractSerial_def Let_def)
        next
          case False
          then show ?thesis
            using kept[OF Some Cons False same sales] Some Cons Inr ins
            by (simp add: extractSerial_def Let_def)
        qed
      qed
    qed
  qed
qed

lemma extractSerial_keeps_nonempty:
  assumes "serialOf db k = Some (Some v)" "v \<noteq> []"
  shows "serialOf (snd (extractSerial saleId file ocrNow rnd conf uploadNow imageId db)) k = Some (Some v)"
proof (cases rule: extractSerial_cases[of saleId "file" ocrNow rnd conf uploadNow imageId db])
  case (failed e)
  then show ?thesis using assms by simp
next
  case (kept f saleRow rest db1)
  then show ?thesis using assms by simp
next
  case (written f saleRow rest db1)
  have row: "find (\<lambda>s. sale_id s = saleId) (sales db) = Some saleRow"
    using written(2) by (rule find_first_of_filter)
  have "k \<noteq> saleId"
  proof
    assume "k = saleId"
    then have "sale_serial_number saleRow = Some v"
      using assms(1) row by (simp add: serialOf_def)
    then show False using written(3) assms(2) by (simp add: jsFalsy_def)
  qed
  then show ?thesis
    using written(4,6) assms by (simp add: serialOf_update)
qed

lemma extractSerial_writes_when_null:
  assumes "extractSerial saleId file ocrNow rnd conf uploadNow imageId db = (Inr resp, db')"
      and "serialOf db saleId = Some None"
  shows "serialOf db' saleId = Some (Some (extractedSerial resp))" "extractedSerial resp \<noteq> []"
proof -
  have both: "serialOf db' saleId = Some (Some (extractedSerial resp)) \<and> extractedSerial resp \<noteq> []"
  proof (cases rule: extractSerial_cases[of saleId "file" ocrNow rnd conf uploadNow imageId db])
    case (failed e)
    then show ?thesis using assms(1) by simp
  next
    case (kept f saleRow rest db1)
    have "find (\<lambda>s. sale_id s = saleId) (sales db) = Some saleRow"
      using kept(2) by (rule find_first_of_filter)
    then have "sale_serial_number saleRow = None"
      using assms(2) by (simp add: serialOf_def)
    then show ?thesis using kept(3) by (simp add: jsFalsy_def)
  next
    case (written f saleRow rest db1)
    have r: "resp = extractSerialFromImage ocrNow rnd conf f"
      and d: "db' = update_sale_serial (extractedSerial (extractSerialFromImage ocrNow rnd conf f)) saleId db1"
      using written(6) assms(1) by simp_all
    show ?thesis
      unfolding d r using written(4) assms(2)
      by (simp add: serialOf_update extractedSerial_nonempty)
  qed
  then show "serialOf db' saleId = Some (Some (extractedSerial resp))" "extractedSerial resp \<noteq> []"
    by simp_all
qed

lemma serials_nonempty_serialOf:
  "serials_nonempty db \<Longrightarrow> serialOf db k = Some (Some v) \<Longrightarrow> v \<noteq> []"
proof -
  assume a: "serials_nonempty db" "serialOf db k = Some (Some v)"
  then obtain r where r: "find (\<lambda>s. sale_id s = k) (sales db) = Some r" "sale_serial_number r = Some v"
    by (auto simp: serialOf_def)
  then have "r \<in> set (sales db)" by (auto simp: find_Some_iff)
  then show "v \<noteq> []" using a(1) r(2) by (auto simp: serials_nonempty_def list_all_iff)
qed

lemma extractSerial_serials_nonempty:
  assumes "serials_nonempty db"
  shows "serials_nonempty (snd (extractSerial saleId file ocrNow rnd conf uploadNow imageId db))"
proof (cases rule: extractSerial_cases[of saleId "file" ocrNow rnd conf uploadNow imageId db])
  case (failed e)
  then show ?thesis using assms by simp
next
  case (kept f saleRow rest db1)
  show ?thesis using assms kept(5,6) by (simp add: serials_nonempty_def)
next
  case (written f saleRow rest db1)
  show ?thesis
    using assms written(5,6) extractedSerial_nonempty[of ocrNow rnd conf f]
    by (auto simp: serials_nonempty_def update_sale_serial_def list_all_iff)
qed

lemma createSale_serials_nonempty:
  assumes "serials_nonempty db"
  shows "serials_nonempty (snd (createSale tza now saleId seller body db))"
proof (cases "createSale_transaction tza now saleId seller body db")
  case (Pair r db')
  show ?thesis
  proof (cases r)
    case (Inl e)
    then show ?thesis using Pair assms by (simp add: createSale_def)
  next
    case (Inr row)
    have "createSale_transaction tza now saleId seller body db = (Inr row, db')"
      using Pair Inr by simp
    from createSale_transaction_cases[OF this]
    have "sales db' = sales db @ [row] \<and> sale_serial_number row \<noteq> Some []"
      by simp
    then show ?thesis
      using Pair Inr assms by (simp add: createSale_def serials_nonempty_def)
  qed
qed

text \<open>
  Claim C6. Whatever the outcome of a call of \<^verbatim>\<open>extractSerial\<close>, a serial number that
  is not empty is left as it is, for every sale. A successful call on a sale whose serial
  number is null sets it to the extracted value, which is never empty, and any later call on
  that sale leaves that value in place. In a database where no serial number is the empty
  string, which \<^verbatim>\<open>createSale\<close> and \<^verbatim>\<open>extractSerial\<close> preserve, every serial number that
  is not null is left as it is.
\<close>

theorem extractSerial_first_write_wins:
  "(\<forall>k v. serialOf db k = Some (Some v) \<and> v \<noteq> [] \<longrightarrow>
       serialOf (snd (extractSerial saleId photo ocrNow rnd conf uploadNow imageId db)) k = Some (Some v))
   \<and> (\<forall>resp db'. extractSerial saleId photo ocrNow rnd conf uploadNow imageId db = (Inr resp, db')
          \<and> serialOf db saleId = Some None \<longrightarrow>
          serialOf db' saleId = Some (Some (extractedSerial resp))
          \<and> extractedSerial resp \<noteq> []
          \<and> (\<forall>file2 ocrNow2 rnd2 conf2 uploadNow2 imageId2.
                serialOf (snd (extractSerial saleId file2 ocrNow2 rnd2 conf2 uploadNow2 imageId2 db')) saleId
                  = Some (Some (extractedSerial resp))))
   \<and> (serials_nonempty db \<longrightarrow>
         serials_nonempty (snd (extractSerial saleId photo ocrNow rnd conf uploadNow imageId db))
         \<and> (\<forall>k v. serialOf db k = Some (Some v) \<longrightarrow>
               serialOf (snd (extractSerial saleId photo ocrNow rnd conf uploadNow imageId db)) k
                 = Some (Some v)))"
proof (intro conjI allI impI)
  fix k v
  assume "serialOf db k = Some (Some v) \<and> v \<noteq> []"
  then show "serialOf (snd (extractSerial saleId photo ocrNow rnd conf uploadNow imageId db)) k = Some (Some v)"
    using extractSerial_keeps_nonempty by simp
next
  fix resp db'
  assume a: "extractSerial saleId photo ocrNow rnd conf uploadNow imageId db = (Inr resp, db')
          \<and> serialOf db saleId = Some None"
  then show w: "serialOf db' saleId = Some (Some (extractedSerial resp))"
    and n: "extractedSerial resp \<noteq> []"
    using extractSerial_writes_when_null[of saleId photo ocrNow rnd conf uploadNow imageId db resp db']
    by simp_all
  fix file2 ocrNow2 rnd2 conf2 uploadNow2 imageId2
  show "serialOf (snd (extractSerial saleId file2 ocrNow2 rnd2 conf2 uploadNow2 imageId2 db')) saleId
          = Some (Some (extractedSerial resp))"
    using w n by (rule extractSerial_keeps_nonempty)
next
  assume "serials_nonempty db"
  then show "serials_nonempty (snd (extractSerial saleId photo ocrNow rnd conf uploadNow imageId db))"
    by (rule extractSerial_serials_nonempty)
next
  fix k v
  assume "serials_nonempty db" "serialOf db k = Some (Some v)"
  then show "serialOf (snd (extractSerial saleId photo ocrNow rnd conf uploadNow imageId db)) k = Some (Some v)"
    using serials_nonempty_serialOf extractSerial_keeps_nonempty by blast
qed

text \<open>
  The first sale of the example database has no serial number: the first extraction writes
  \<open>SER600123QWE\<close> and a second one leaves it. The second sale keeps \<open>SN-77\<close>.
\<close>

theorem extractSerial_first_write_wins_witness:
  "serialOf demo_db ''s1'' = Some None
   \<and> extractedSerial (extractSerialFromImage 1709373600123 ''QWE'' 88 demo_photo) = ''SER600123QWE''
   \<and> serialOf (snd (extractSerial ''s1'' (Some demo_photo) 1709373600123 ''QWE'' 88 1709373600650 ''i2'' demo_db)) ''s1''
       = Some (Some ''SER600123QWE'')
   \<and> serialOf (snd (extractSerial ''s1'' (Some demo_photo) 1709373700123 ''RTY'' 91 1709373700650 ''i3''
                  (snd (extractSerial ''s1'' (Some demo_photo) 1709373600123 ''QWE'' 88 1709373600650 ''i2'' demo_db)))) ''s1''
       = Some (Some ''SER600123QWE'')
   \<and> serialOf (snd (extractSerial ''s2'' (Some demo_photo) 1709373600123 ''QWE'' 88 1709373600650 ''i2'' demo_db)) ''s2''
       = Some (Some ''SN-77'')"
proof -
  let ?first = "extractSerial ''s1'' (Some demo_photo) 1709373600123 ''QWE'' 88 1709373600650 ''i2'' demo_db"
  have s1: "serialOf demo_db ''s1'' = Some None" and s2: "serialOf demo_db ''s2'' = Some (Some ''SN-77'')"
    by (simp_all add: serialOf_def demo_db_def)
  have n: "showInt 1709373600123 = ''1709373600123''"
    by (simp add: showInt_def showNat.simps digitChar_def)
  have h: "map toUpperChar (filter isAlnum ''serial photo.png'') = ''SERIALPHOTOPNG''"
    by code_simp
  have "extractedSerial (extractSerialFromImage 1709373600123 ''QWE'' 88 demo_photo)
          = take 3 (map toUpperChar (filter isAlnum ''serial photo.png''))
            @ drop (length (showInt 1709373600123) - 6) (showInt 1709373600123) @ ''QWE''"
    unfolding extractSerialFromImage_def Let_def demo_photo_def by simp
  also have "\<dots> = ''SER600123QWE''" unfolding n h by simp
  finally have x: "extractedSerial (extractSerialFromImage 1709373600123 ''QWE'' 88 demo_photo)
          = ''SER600123QWE''" .
  have ok: "fst ?first = Inr (extractSerialFromImage 1709373600123 ''QWE'' 88 demo_photo)"
    by (rule extractSerial_succeeds) (simp_all add: demo_db_def demo_photo_def maxFileSize_def)
  have call: "?first = (Inr (extractSerialFromImage 1709373600123 ''QWE'' 88 demo_photo), snd ?first)
               \<and> serialOf demo_db ''s1'' = Some None"
    using ok s1 by (simp add: prod_eq_iff)
  note T1 = extractSerial_first_write_wins[where db = demo_db and saleId = "''s1''"
      and photo = "Some demo_photo" and ocrNow = 1709373600123 and rnd = "''QWE''" and conf = 88
      and uploadNow = 1709373600650 and imageId = "''i2''"]
  note T2 = extractSerial_first_write_wins[where db = demo_db and saleId = "''s2''"
      and photo = "Some demo_photo" and ocrNow = 1709373600123 and rnd = "''QWE''" and conf = 88
      and uploadNow = 1709373600650 and imageId = "''i2''"]
  from T1 have W: "\<forall>resp db'. ?first = (Inr resp, db') \<and> serialOf demo_db ''s1'' = Some None \<longrightarrow>
          serialOf db' ''s1'' = Some (Some (extractedSerial resp))
          \<and> extractedSerial resp \<noteq> []
          \<and> (\<forall>file2 ocrNow2 rnd2 conf2 uploadNow2 imageId2.
                serialOf (snd (extractSerial ''s1'' file2 ocrNow2 rnd2 conf2 uploadNow2 imageId2 db')) ''s1''
                  = Some (Some (extractedSerial resp)))"
    by (elim conjE)
  from W[rule_format, OF call] have
    a: "serialOf (snd ?first) ''s1'' = Some (Some ''SER600123QWE'')"
    and b: "serialOf (snd (extractSerial ''s1'' (Some demo_photo) 1709373700123 ''RTY'' 91 1709373700650 ''i3''
                  (snd ?first))) ''s1'' = Some (Some ''SER600123QWE'')"
    unfolding x by simp_all
  from T2 have K: "\<forall>k v. serialOf demo_db k = Some (Some v) \<and> v \<noteq> [] \<longrightarrow>
       serialOf (snd (extractSerial ''s2'' (Some demo_photo) 1709373600123 ''QWE'' 88 1709373600650 ''i2'' demo_db)) k
         = Some (Some v)"
    by (elim conjE)
  have c: "serialOf (snd (extractSerial ''s2'' (Some demo_photo) 1709373600123 ''QWE'' 88 1709373600650 ''i2'' demo_db)) ''s2''
       = Some (Some ''SN-77'')"
    using K[rule_format, of "''s2''" "''SN-77''"] s2 by simp
  show ?thesis using s1 x a b c by simp
qed

subsection \<open>Attaching images\<close>

lemma demo_files_small: "file_size demo_box \<le> maxFileSize" "file_size demo_photo \<le> maxFileSize"
  by (simp_all add: demo_box_def demo_photo_def maxFileSize_def)

lemma demo_stamp: "showInt 1709373600650 = ''1709373600650''"
  by (simp add: showInt_def showNat.simps digitChar_def)

lemma demo_names: "stripExtension (file_originalname demo_box) = ''box''"
  "stripExtension (file_originalname demo_photo) = ''serial photo''"
  unfolding demo_box_def demo_photo_def by (simp, code_simp)+

text \<open>
  Claim C5 at a failing input. The first sale of the example database already has a sealed
  image. A request to upload another sealed image for it is not rejected: it returns the new
  row, and the sale then has two sealed images.
\<close>

theorem uploadSaleImages_second_sealed:
  "map image_type [i \<leftarrow> sale_images demo_db. image_sale_id i = ''s1''] = [''sealed'']
   \<and> uploadSaleImages ''s1'' (Some [demo_box]) (Some [''sealed'']) (\<lambda>i. 1709373600650) (\<lambda>i. ''i2'') demo_db
       = (Inr [\<lparr>image_id = ''i2'', image_sale_id = ''s1'', image_type = ''sealed'',
                  image_url = ''https://res.cloudinary.com/sales-system/image/upload/w_800,h_600,q_90/sales-system/sealed/1709373600650-box.jpg''\<rparr>],
          demo_db\<lparr>sale_images := sale_images demo_db @
             [\<lparr>image_id = ''i2'', image_sale_id = ''s1'', image_type = ''sealed'',
                  image_url = ''https://res.cloudinary.com/sales-system/image/upload/w_800,h_600,q_90/sales-system/sealed/1709373600650-box.jpg''\<rparr>]\<rparr>)
   \<and> map image_type
         [i \<leftarrow> sale_images (snd (uploadSaleImages ''s1'' (Some [demo_box]) (Some [''sealed''])
                                   (\<lambda>i. 1709373600650) (\<lambda>i. ''i2'') demo_db)).
            image_sale_id i = ''s1'']
       = [''sealed'', ''sealed'']"
proof -
  have one: "uploadOne ''s1'' 1709373600650 ''i2'' demo_box ''sealed'' demo_db =
      (Inserted \<lparr>image_id = ''i2'', image_sale_id = ''s1'', image_type = ''sealed'',
                  image_url = ''https://res.cloudinary.com/sales-system/image/upload/w_800,h_600,q_90/sales-system/sealed/1709373600650-box.jpg''\<rparr>,
       demo_db\<lparr>sale_images := sale_images demo_db @
             [\<lparr>image_id = ''i2'', image_sale_id = ''s1'', image_type = ''sealed'',
                  image_url = ''https://res.cloudinary.com/sales-system/image/upload/w_800,h_600,q_90/sales-system/sealed/1709373600650-box.jpg''\<rparr>]\<rparr>)"
    unfolding uploadOne_def uploadImage_sealed[OF demo_files_small(1)] demo_stamp demo_names
    by (simp add: insert_sale_image_def allowedImageTypes_def demo_db_def Let_def)
  have sale: "[s \<leftarrow> sales demo_db. sale_id s = ''s1''] \<noteq> []" by (simp add: demo_db_def)
  have call: "uploadSaleImages ''s1'' (Some [demo_box]) (Some [''sealed'']) (\<lambda>i. 1709373600650) (\<lambda>i. ''i2'') demo_db
       = (Inr [\<lparr>image_id = ''i2'', image_sale_id = ''s1'', image_type = ''sealed'',
                  image_url = ''https://res.cloudinary.com/sales-system/image/upload/w_800,h_600,q_90/sales-system/sealed/1709373600650-box.jpg''\<rparr>],
          demo_db\<lparr>sale_images := sale_images demo_db @
             [\<lparr>image_id = ''i2'', image_sale_id = ''s1'', image_type = ''sealed'',
                  image_url = ''https://res.cloudinary.com/sales-system/image/upload/w_800,h_600,q_90/sales-system/sealed/1709373600650-box.jpg''\<rparr>]\<rparr>)"
    unfolding uploadSaleImages_def using sale by (simp add: one promiseAll_def)
  show ?thesis unfolding call by (simp add: demo_db_def)
qed

text \<open>
  Claim C9. There is a request that fails with a validation error and still leaves a row
  behind: two files, the first declared \<open>full_product\<close> and the second declared with a type
  that does not exist. The result is the validation error for the second file, and the
  database afterwards holds the image row of the first.
\<close>

theorem uploadSaleImages_not_atomic:
  "uploadSaleImages ''s2'' (Some [demo_box, demo_photo]) (Some [''full_product'', ''bogus''])
       (\<lambda>i. 1709373600650) (\<lambda>i. if i = 0 then ''i2'' else ''i3'') demo_db
     = (Inl (ValidationError (''Tipo de imagen inv'' @ a_acute @ ''lido: bogus'')),
        demo_db\<lparr>sale_images := sale_images demo_db @
           [\<lparr>image_id = ''i2'', image_sale_id = ''s2'', image_type = ''full_product'',
             image_url = ''https://res.cloudinary.com/sales-system/image/upload/w_1200,h_900,q_85/sales-system/full_product/1709373600650-box.jpg''\<rparr>]\<rparr>)"
proof -
  have first: "uploadOne ''s2'' 1709373600650 ''i2'' demo_box ''full_product'' demo_db =
      (Inserted \<lparr>image_id = ''i2'', image_sale_id = ''s2'', image_type = ''full_product'',
             image_url = ''https://res.cloudinary.com/sales-system/image/upload/w_1200,h_900,q_85/sales-system/full_product/1709373600650-box.jpg''\<rparr>,
       demo_db\<lparr>sale_images := sale_images demo_db @
           [\<lparr>image_id = ''i2'', image_sale_id = ''s2'', image_type = ''full_product'',
             image_url = ''https://res.cloudinary.com/sales-system/image/upload/w_1200,h_900,q_85/sales-system/full_product/1709373600650-box.jpg''\<rparr>]\<rparr>)"
    unfolding uploadOne_def uploadImage_full_product[OF demo_files_small(1)] demo_stamp demo_names
    by (simp add: insert_sale_image_def allowedImageTypes_def demo_db_def Let_def)
  have second: "uploadOne ''s2'' t u demo_photo ''bogus'' db
      = (TypeRejected (ValidationError (''Tipo de imagen inv'' @ a_acute @ ''lido: bogus'')), db)" for t u db
    by (simp add: uploadOne_def)
  have sale: "[s \<leftarrow> sales demo_db. sale_id s = ''s2''] \<noteq> []" by (simp add: demo_db_def)
  show ?thesis
    unfolding uploadSaleImages_def using sale by (simp add: first second promiseAll_def)
qed

text \<open>
  No request makes \<^verbatim>\<open>uploadSaleImages\<close> throw the conflict error: the controller has no
  check on the image types already present.
\<close>

lemma uploadImage_no_conflict: "uploadImage t f ty = Inl e \<Longrightarrow> \<not> isConflict e"
  by (auto simp: uploadImage_def isConflict_def Let_def split: if_splits prod.splits)

lemma insert_sale_image_no_conflict: "insert_sale_image row db = Inl e \<Longrightarrow> \<not> isConflict e"
  by (auto simp: insert_sale_image_def isConflict_def split: if_splits)

lemma uploadOne_no_conflict: "\<not> rejectedWithConflict (fst (uploadOne s t u f ty db))"
proof (cases "ty \<in> set [''sealed'', ''full_product'', ''serial_number'']")
  case False
  then show ?thesis by (simp add: uploadOne_def rejectedWithConflict_def isConflict_def)
next
  case True
  show ?thesis
  proof (cases "uploadImage t f ty")
    case (Inl e)
    then show ?thesis
      using True uploadImage_no_conflict[OF Inl]
      by (simp add: uploadOne_def rejectedWithConflict_def)
  next
    case (Inr r)
    show ?thesis
    proof (cases "insert_sale_image \<lparr>image_id = u, image_sale_id = s, image_type = ty,
                                        image_url = imageUrl r\<rparr> db")
      case (Inl e)
      then show ?thesis
        using True Inr insert_sale_image_no_conflict[OF Inl]
        by (simp add: uploadOne_def rejectedWithConflict_def Let_def)
    next
      case ok: (Inr db')
      then show ?thesis
        using True Inr by (simp add: uploadOne_def rejectedWithConflict_def Let_def)
    qed
  qed
qed

lemma uploadEach_no_conflict:
  "list_all (\<lambda>outcome. \<not> rejectedWithConflict outcome) (fst (uploadEach s stamp uuid i fts db))"
proof (induction fts arbitrary: i db)
  case Nil
  then show ?case by simp
next
  case (Cons ft fts)
  obtain f ty where ft: "ft = (f, ty)" by (cases ft)
  obtain outcome db1 where o: "uploadOne s (stamp i) (uuid i) f ty db = (outcome, db1)"
    by (cases "uploadOne s (stamp i) (uuid i) f ty db")
  obtain outcomes db2 where r: "uploadEach s stamp uuid (Suc i) fts db1 = (outcomes, db2)"
    by (cases "uploadEach s stamp uuid (Suc i) fts db1")
  have "\<not> rejectedWithConflict outcome"
    using uploadOne_no_conflict[of s "stamp i" "uuid i" f ty db] o by simp
  moreover have "list_all (\<lambda>outcome. \<not> rejectedWithConflict outcome) outcomes"
    using Cons.IH[of "Suc i" db1] r by simp
  ultimately show ?case by (simp add: ft o r)
qed

lemma promiseAll_no_conflict:
  assumes "list_all (\<lambda>outcome. \<not> rejectedWithConflict outcome) outcomes"
  shows "promiseAll outcomes \<noteq> Inl (ConflictError m)"
proof -
  have a: "\<not> isConflict e" if "e \<in> set [e. TypeRejected e \<leftarrow> outcomes]" for e
    using that assms by (auto simp: list_all_iff rejectedWithConflict_def split: upload_outcome.splits)
  have b: "\<not> isConflict e" if "e \<in> set [e. UploadRejected e \<leftarrow> outcomes]" for e
    using that assms by (auto simp: list_all_iff rejectedWithConflict_def split: upload_outcome.splits)
  have c: "\<not> isConflict e" if "e \<in> set [e. InsertRejected e \<leftarrow> outcomes]" for e
    using that assms by (auto simp: list_all_iff rejectedWithConflict_def split: upload_outcome.splits)
  have k: "isConflict (ConflictError m)" by (simp add: isConflict_def)
  show ?thesis
  proof (cases "[e. TypeRejected e \<leftarrow> outcomes]")
    case (Cons e es)
    then have "e \<in> set [e. TypeRejected e \<leftarrow> outcomes]" by simp
    then have "\<not> isConflict e" by (rule a)
    then show ?thesis unfolding promiseAll_def Cons using k by auto
  next
    case t: Nil
    show ?thesis
    proof (cases "[e. UploadRejected e \<leftarrow> outcomes]")
      case (Cons e es)
      then have "e \<in> set [e. UploadRejected e \<leftarrow> outcomes]" by simp
      then have "\<not> isConflict e" by (rule b)
      then show ?thesis unfolding promiseAll_def t Cons using k by auto
    next
      case u: Nil
      show ?thesis
      proof (cases "[e. InsertRejected e \<leftarrow> outcomes]")
        case (Cons e es)
        then have "e \<in> set [e. InsertRejected e \<leftarrow> outcomes]" by simp
        then have "\<not> isConflict e" by (rule c)
        then show ?thesis unfolding promiseAll_def t u Cons using k by auto
      next
        case i: Nil
        show ?thesis unfolding promiseAll_def t u i by simp
      qed
    qed
  qed
qed

lemma uploadSaleImages_never_conflict:
  "fst (uploadSaleImages saleId files image_types stamp uuid db) \<noteq> Inl (ConflictError m)"
proof -
  have p: "promiseAll (fst (uploadEach saleId stamp uuid 0 fts db)) \<noteq> Inl (ConflictError m)" for fts
    by (rule promiseAll_no_conflict) (rule uploadEach_no_conflict)
  show ?thesis
  proof (cases "files")
    case None
    then show ?thesis by (simp add: uploadSaleImages_def)
  next
    case fs: (Some fs)
    show ?thesis
    proof (cases image_types)
      case None
      then show ?thesis using fs by (simp add: uploadSaleImages_def)
    next
      case (Some tys)
      obtain outcomes db' where e: "uploadEach saleId stamp uuid 0 (zip fs tys) db = (outcomes, db')"
        by (cases "uploadEach saleId stamp uuid 0 (zip fs tys) db")
      have "promiseAll outcomes \<noteq> Inl (ConflictError m)" using p[of "zip fs tys"] e by simp
      then show ?thesis
        using fs Some e by (simp add: uploadSaleImages_def newNotFoundError_def)
    qed
  qed
qed

text \<open>The three distinct types for one sale are accepted in one request.\<close>

lemma uploadSaleImages_three_types:
  "fst (uploadSaleImages ''s2'' (Some [demo_box, demo_box, demo_photo])
          (Some [''sealed'', ''full_product'', ''serial_number''])
          (\<lambda>i. 1709373600650) (\<lambda>i. if i = 0 then ''i2'' else if i = 1 then ''i3'' else ''i4'') demo_db)
     = Inr [\<lparr>image_id = ''i2'', image_sale_id = ''s2'', image_type = ''sealed'',
             image_url = ''https://res.cloudinary.com/sales-system/image/upload/w_800,h_600,q_90/sales-system/sealed/1709373600650-box.jpg''\<rparr>,
            \<lparr>image_id = ''i3'', image_sale_id = ''s2'', image_type = ''full_product'',
             image_url = ''https://res.cloudinary.com/sales-system/image/upload/w_1200,h_900,q_85/sales-system/full_product/1709373600650-box.jpg''\<rparr>,
            \<lparr>image_id = ''i4'', image_sale_id = ''s2'', image_type = ''serial_number'',
             image_url = ''https://res.cloudinary.com/sales-system/image/upload/w_1920,h_1080,q_95/sales-system/serial_number/1709373600650-serial photo.jpg''\<rparr>]"
proof -
  have ins: "insert_sale_image \<lparr>image_id = u, image_sale_id = ''s2'', image_type = ty, image_url = url\<rparr> db
      = Inr (db\<lparr>sale_images := sale_images db @
               [\<lparr>image_id = u, image_sale_id = ''s2'', image_type = ty, image_url = url\<rparr>]\<rparr>)"
    if "ty \<in> set allowedImageTypes" "u \<notin> set (map image_id (sale_images db))"
       "''s2'' \<in> set (map sale_id (sales db))" for u ty url db
    using that by (simp add: insert_sale_image_def)
  have sale: "[s \<leftarrow> sales demo_db. sale_id s = ''s2''] \<noteq> []" by (simp add: demo_db_def)
  have ids: "map image_id (sale_images demo_db) = [''i1'']" "map sale_id (sales demo_db) = [''s1'', ''s2'']"
    by (simp_all add: demo_db_def)
  show ?thesis
    unfolding uploadSaleImages_def using sale
    by (simp add: uploadOne_def uploadImage_sealed[OF demo_files_small(1)]
          uploadImage_full_product[OF demo_files_small(1)]
          uploadImage_serial_number[OF demo_files_small(2)]
          demo_stamp demo_names ins ids allowedImageTypes_def promiseAll_def Let_def)
qed


end
